theory Spec2Isabelle
  imports Main "HOL-Library.Sublist"
begin

section \<open>Strings\<close>

text \<open>
  A Python \<open>str\<close> is a sequence of Unicode code points; it is modelled as a list of
  natural numbers, one per code point. \<open>py ''abc''\<close> is the literal \<open>'abc'\<close>.
\<close>

type_synonym pystr = "nat list"

definition py :: "string \<Rightarrow> pystr" where
  "py s = map of_char s"

text \<open>\<open>s.startswith(p)\<close> and \<open>s.endswith(p)\<close>.\<close>

definition startswith :: "pystr \<Rightarrow> pystr \<Rightarrow> bool" where
  "startswith s p = prefix p s"

definition endswith :: "pystr \<Rightarrow> pystr \<Rightarrow> bool" where
  "endswith s p = suffix p s"

text \<open>
  \<open>s.strip(chars)\<close>: leading and trailing characters that occur in \<open>chars\<close> are removed.
\<close>

definition strip_chars :: "pystr \<Rightarrow> pystr \<Rightarrow> pystr" where
  "strip_chars s cs =
     rev (dropWhile (\<lambda>c. c \<in> set cs) (rev (dropWhile (\<lambda>c. c \<in> set cs) s)))"

text \<open>
  \<open>s.strip()\<close> removes leading and trailing whitespace. \<open>isspace\<close> lists the code points
  Python counts as whitespace: the ASCII controls 9-13 and 28-31, the space, and the
  Unicode separators U+0085, U+00A0, U+1680, U+2000-U+200A, U+2028, U+2029, U+202F,
  U+205F and U+3000.
\<close>

definition isspace :: "nat \<Rightarrow> bool" where
  "isspace c \<longleftrightarrow>
     c \<in> set ([9, 10, 11, 12, 13, 28, 29, 30, 31, 32, 133, 160, 5760] @ [8192..<8203] @
              [8232, 8233, 8239, 8287, 12288])"

definition strip :: "pystr \<Rightarrow> pystr" where
  "strip s = rev (dropWhile isspace (rev (dropWhile isspace s)))"

text \<open>
  \<open>s.lower()\<close> on the letters A-Z. The driver only compares the lowered answer with
  \<open>'y'\<close> and \<open>'yes'\<close>, and no code point outside A-Z lowers to one of y, e, s.
\<close>

definition lower :: "pystr \<Rightarrow> pystr" where
  "lower s = map (\<lambda>c. if 65 \<le> c \<and> c \<le> 90 then c + 32 else c) s"

text \<open>
  \<open>re.sub(r'[...]', '_', s)\<close> for a character class given by the list of its members:
  every member of the class is replaced by the underscore (code point 95).
\<close>

definition re_sub_class :: "pystr \<Rightarrow> pystr \<Rightarrow> pystr" where
  "re_sub_class cls s = map (\<lambda>c. if c \<in> set cls then 95 else c) s"

text \<open>The class \<open>[<>:"|?*]\<close> (34 is the double quote) and the class \<open>[/\]\<close>.\<close>

definition invalid_chars :: pystr where
  "invalid_chars = py ''<>:'' @ [34] @ py ''|?*''"

definition separator_chars :: pystr where
  "separator_chars = [47, 92]"

text \<open>\<open>str(n)\<close> for a non-negative integer: its decimal digits.\<close>

fun str_nat :: "nat \<Rightarrow> pystr" where
  "str_nat n = (if n < 10 then [48 + n] else str_nat (n div 10) @ [48 + n mod 10])"

declare str_nat.simps [simp del]

text \<open>
  \<open>os.path.basename\<close> and \<open>os.path.join\<close> of two components, as \<open>posixpath\<close> defines
  them: the separator is the slash (code point 47).
\<close>

definition basename :: "pystr \<Rightarrow> pystr" where
  "basename p = rev (takeWhile (\<lambda>c. c \<noteq> 47) (rev p))"

definition os_path_join :: "pystr \<Rightarrow> pystr \<Rightarrow> pystr" where
  "os_path_join a b =
     (if startswith b [47] then b
      else if a = [] \<or> endswith a [47] then a @ b
      else a @ [47] @ b)"

section \<open>Exceptions\<close>

text \<open>
  The handlers of the program distinguish three classes of exception, each carrying the
  message that \<open>print(f"...{e}")\<close> shows: \<open>requests.exceptions.RequestException\<close> with its
  subclasses (connection errors, timeouts, \<open>HTTPError\<close>); every other subclass of
  \<open>Exception\<close> (\<open>OSError\<close>, \<open>ValueError\<close>, \<open>EOFError\<close>, ...); and what \<open>except Exception\<close> does
  not catch (\<open>KeyboardInterrupt\<close>, \<open>SystemExit\<close>).
\<close>

datatype exn = RequestException pystr | Exception pystr | BaseException pystr

section \<open>The world outside the program\<close>

text \<open>
  The state the program acts on: the directories and the files of the file system (a
  file is its text), the URLs requested over the network so far, the lines printed on the
  console, and the lines still to be read from standard input.
\<close>

record world =
  dirs :: "pystr set"
  files :: "pystr \<rightharpoonup> pystr"
  requests :: "pystr list"
  console :: "pystr list"
  stdin :: "pystr list"

text \<open>
  A response of \<open>requests.get\<close>, as far as the program and \<open>raise_for_status\<close> read it:
  \<open>response.text\<close>, the status code with its reason phrase, and \<open>response.url\<close>, the URL
  the response came from. \<open>requests.get\<close> follows redirects, so this is the URL at the
  end of the redirects, which need not be the URL requested.
\<close>

record response =
  body :: pystr
  status_code :: nat
  reason :: pystr
  response_url :: pystr

text \<open>
  The message of the \<open>HTTPError\<close> that \<open>response.raise_for_status()\<close> raises, as the
  \<open>requests\<close> library composes it: there is one for the status codes 400 to 599, and none
  for any other status code.
\<close>

definition http_error :: "response \<Rightarrow> pystr option" where
  "http_error r =
     (if 400 \<le> status_code r \<and> status_code r < 500 then
        Some (str_nat (status_code r) @ py '' Client Error: '' @ reason r @
              py '' for url: '' @ response_url r)
      else if 500 \<le> status_code r \<and> status_code r < 600 then
        Some (str_nat (status_code r) @ py '' Server Error: '' @ reason r @
              py '' for url: '' @ response_url r)
      else None)"

text \<open>The two fields of \<open>urlparse\<close>'s result that the program reads.\<close>

record parsed =
  netloc :: pystr
  path :: pystr

text \<open>
  The parsed document. \<open>BeautifulSoup\<close> builds a tree of tag and text objects; it is
  held as the list of its nodes in document order, each with its depth in the tree, so
  that an object is named by its position in the list. A tag has a name and its
  attributes in order; the value of an attribute is its text.
\<close>

datatype node = Tag pystr "(pystr \<times> pystr) list" | NavigableString pystr

type_synonym soup = "(nat \<times> node) list"

text \<open>
  What the libraries and the operating system answer. None of it is code of the
  program, so each is a parameter: \<open>urlparse\<close> and \<open>urljoin\<close> of \<open>urllib.parse\<close> (they
  raise \<open>ValueError\<close> on some inputs), the outcome of an HTTP GET, of \<open>os.makedirs\<close>, of
  opening a file for writing and of writing a text to the open file (on failure the
  exception and the text the file is left with), the \<open>html.parser\<close> of \<open>BeautifulSoup\<close>
  and the serialisation \<open>str(soup)\<close>. The answers of the network and of the file system
  may depend on the whole state.

  The last parameter is the encoding of standard output. The program prints lines with
  the check mark U+2713 and the ballot cross U+2717. \<open>stdout_marks\<close> is \<open>None\<close> when the
  encoding of standard output has the two marks; otherwise \<open>print\<close> raises
  \<open>UnicodeEncodeError\<close> on a line with a mark, and \<open>stdout_marks\<close> gives the message of that
  exception for the line. An encoding is taken to have both marks or neither.
\<close>

record env =
  urlparse :: "pystr \<Rightarrow> exn + parsed"
  urljoin :: "pystr \<Rightarrow> pystr \<Rightarrow> exn + pystr"
  http :: "world \<Rightarrow> pystr \<Rightarrow> exn + response"
  mkdir :: "world \<Rightarrow> pystr \<Rightarrow> exn option"
  fopen :: "world \<Rightarrow> pystr \<Rightarrow> exn option"
  fwrite :: "world \<Rightarrow> pystr \<Rightarrow> pystr \<Rightarrow> (exn \<times> pystr) option"
  BeautifulSoup :: "pystr \<Rightarrow> exn + soup"
  soup_str :: "soup \<Rightarrow> exn + pystr"
  stdout_marks :: "(pystr \<Rightarrow> pystr) option"

section \<open>Statements with effects\<close>

text \<open>
  A statement takes the state and gives back either the exception it raised or its
  value, with the state it left behind. \<open>and_then\<close> is sequencing: an exception of the
  first statement skips the second. \<open>try_except\<close> runs a handler on the state the
  exception left; a handler that answers \<open>None\<close> has no clause for the exception, which
  then propagates.
\<close>

type_synonym 'a io = "world \<Rightarrow> (exn + 'a) \<times> world"

definition return :: "'a \<Rightarrow> 'a io" where
  "return a w = (Inr a, w)"

definition lift :: "exn + 'a \<Rightarrow> 'a io" where
  "lift r w = (r, w)"

definition and_then :: "'a io \<Rightarrow> ('a \<Rightarrow> 'b io) \<Rightarrow> 'b io" where
  "and_then m f w = (case m w of (Inl x, w') \<Rightarrow> (Inl x, w') | (Inr a, w') \<Rightarrow> f a w')"

definition try_except :: "'a io \<Rightarrow> (exn \<Rightarrow> 'a io option) \<Rightarrow> 'a io" where
  "try_except m h w =
     (case m w of
        (Inr a, w') \<Rightarrow> (Inr a, w')
      | (Inl x, w') \<Rightarrow> (case h x of None \<Rightarrow> (Inl x, w') | Some k \<Rightarrow> k w'))"

text \<open>
  \<open>print(s)\<close> adds a line to the console. \<open>print\<close> stands for the calls whose line is
  made of ASCII text of the program and of data (URLs, paths, messages of exceptions):
  standard output is taken to encode these, and the call to succeed. \<open>print_mark\<close> stands
  for the calls whose line holds one of the marks U+2713 and U+2717: when standard output
  cannot encode the marks, the call raises \<open>UnicodeEncodeError\<close>, a subclass of
  \<open>Exception\<close>, and nothing is printed. \<open>input(prompt)\<close> shows the prompt and reads the next
  line of standard input, raising \<open>EOFError\<close> when there is none.
\<close>

definition print :: "pystr \<Rightarrow> unit io" where
  "print s w = (Inr (), w\<lparr>console := console w @ [s]\<rparr>)"

definition print_mark :: "env \<Rightarrow> pystr \<Rightarrow> unit io" where
  "print_mark e s =
     (case stdout_marks e of
        None \<Rightarrow> print s
      | Some msg \<Rightarrow> lift (Inl (Exception (msg s))))"

definition input :: "pystr \<Rightarrow> pystr io" where
  "input prompt w =
     (case stdin w of
        [] \<Rightarrow> (Inl (Exception (py ''EOF when reading a line'')),
               w\<lparr>console := console w @ [prompt]\<rparr>)
      | l # ls \<Rightarrow> (Inr l, w\<lparr>console := console w @ [prompt], stdin := ls\<rparr>))"

text \<open>\<open>requests.get(url, headers=headers, timeout=10)\<close>: the request is recorded, the
  network answers. \<open>response.raise_for_status()\<close> raises \<open>HTTPError\<close>, a
  \<open>RequestException\<close>, for a status code from 400 to 599.\<close>

definition requests_get :: "env \<Rightarrow> pystr \<Rightarrow> response io" where
  "requests_get e url w = (http e w url, w\<lparr>requests := requests w @ [url]\<rparr>)"

definition raise_for_status :: "response \<Rightarrow> unit io" where
  "raise_for_status r =
     (case http_error r of None \<Rightarrow> return () | Some m \<Rightarrow> lift (Inl (RequestException m)))"

text \<open>\<open>os.path.exists\<close>, \<open>os.makedirs\<close>, and the two steps of
  \<open>with open(p, 'w', encoding='utf-8') as f: f.write(t)\<close>: opening creates the file or
  empties it, writing fills it.\<close>

definition os_path_exists :: "world \<Rightarrow> pystr \<Rightarrow> bool" where
  "os_path_exists w p \<longleftrightarrow> p \<in> dirs w \<or> files w p \<noteq> None"

definition os_makedirs :: "env \<Rightarrow> pystr \<Rightarrow> unit io" where
  "os_makedirs e p w =
     (case mkdir e w p of
        Some x \<Rightarrow> (Inl x, w)
      | None \<Rightarrow> (Inr (), w\<lparr>dirs := insert p (dirs w)\<rparr>))"

definition open_w :: "env \<Rightarrow> pystr \<Rightarrow> unit io" where
  "open_w e p w =
     (case fopen e w p of
        Some x \<Rightarrow> (Inl x, w)
      | None \<Rightarrow> (Inr (), w\<lparr>files := (files w)(p \<mapsto> [])\<rparr>))"

definition f_write :: "env \<Rightarrow> pystr \<Rightarrow> pystr \<Rightarrow> unit io" where
  "f_write e p t w =
     (case fwrite e w p t of
        Some (x, left) \<Rightarrow> (Inl x, w\<lparr>files := (files w)(p \<mapsto> left)\<rparr>)
      | None \<Rightarrow> (Inr (), w\<lparr>files := (files w)(p \<mapsto> t)\<rparr>))"

section \<open>The parsed document\<close>

text \<open>
  The words of an attribute value, split at whitespace: \<open>BeautifulSoup\<close> keeps the \<open>rel\<close>
  attribute as the list of its words, and \<open>find_all('link', rel='stylesheet')\<close> selects
  the \<open>link\<close> tags that have \<open>stylesheet\<close> among them, in document order.
\<close>

fun split_words :: "pystr \<Rightarrow> pystr \<Rightarrow> pystr list" where
  "split_words cur [] = (if cur = [] then [] else [cur])"
| "split_words cur (c # cs) =
     (if isspace c then (if cur = [] then split_words [] cs else cur # split_words [] cs)
      else split_words (cur @ [c]) cs)"

fun is_stylesheet_link :: "node \<Rightarrow> bool" where
  "is_stylesheet_link (Tag name attrs) =
     (name = py ''link'' \<and>
      (case map_of attrs (py ''rel'') of
         None \<Rightarrow> False
       | Some v \<Rightarrow> py ''stylesheet'' \<in> set (split_words [] v)))"
| "is_stylesheet_link (NavigableString s) = False"

definition find_all_stylesheet_links :: "soup \<Rightarrow> nat list" where
  "find_all_stylesheet_links s =
     filter (\<lambda>i. is_stylesheet_link (snd (s ! i))) [0..<length s]"

text \<open>\<open>link.get(k)\<close> and \<open>link[k] = v\<close> for the object at position \<open>link\<close>. Setting a key
  of the attribute dictionary keeps its place when it is there and appends it otherwise.\<close>

fun dict_set :: "pystr \<Rightarrow> pystr \<Rightarrow> (pystr \<times> pystr) list \<Rightarrow> (pystr \<times> pystr) list" where
  "dict_set k v [] = [(k, v)]"
| "dict_set k v ((k', v') # kvs) =
     (if k' = k then (k, v) # kvs else (k', v') # dict_set k v kvs)"

definition tag_get :: "soup \<Rightarrow> nat \<Rightarrow> pystr \<Rightarrow> pystr option" where
  "tag_get s link k =
     (if link < length s then
        (case snd (s ! link) of Tag name attrs \<Rightarrow> map_of attrs k | NavigableString t \<Rightarrow> None)
      else None)"

definition tag_set :: "soup \<Rightarrow> nat \<Rightarrow> pystr \<Rightarrow> pystr \<Rightarrow> soup" where
  "tag_set s link k v =
     (if link < length s then
        (case s ! link of
           (d, Tag name attrs) \<Rightarrow> s[link := (d, Tag name (dict_set k v attrs))]
         | (d, NavigableString t) \<Rightarrow> s)
      else s)"

section \<open>The program\<close>

subsection \<open>\<open>sanitize_url_for_directory\<close>\<close>

definition sanitize_url_for_directory :: "env \<Rightarrow> pystr \<Rightarrow> exn + pystr" where
  "sanitize_url_for_directory e url =
     (case urlparse e url of
        Inl x \<Rightarrow> Inl x
      | Inr parsed \<Rightarrow>
          (let dir_name = (if netloc parsed \<noteq> [] then netloc parsed @ path parsed
                           else path parsed);
               dir_name = strip_chars dir_name (py ''/'');
               dir_name = re_sub_class invalid_chars dir_name;
               dir_name = re_sub_class separator_chars dir_name;
               dir_name = (if dir_name = [] then py ''extracted_page'' else dir_name)
           in Inr dir_name))"

subsection \<open>\<open>extract_html_from_url\<close>\<close>

text \<open>The first statement of the \<open>try\<close> (\<open>https://\<close> is put before a URL that starts
  with neither \<open>http://\<close> nor \<open>https://\<close>), the body of the \<open>try\<close> with the URL rebound to
  its result, and the function with its two \<open>except\<close> clauses.\<close>

definition add_scheme :: "pystr \<Rightarrow> pystr" where
  "add_scheme url =
     (if \<not> (startswith url (py ''http://'') \<or> startswith url (py ''https://''))
      then py ''https://'' @ url else url)"

definition fetch_try :: "env \<Rightarrow> pystr \<Rightarrow> (pystr \<times> pystr \<times> pystr \<times> pystr) io" where
  "fetch_try e url0 =
     (let url = add_scheme url0 in
      and_then (print (py ''Fetching HTML from: '' @ url)) (\<lambda>_.
      and_then (requests_get e url) (\<lambda>response.
      and_then (raise_for_status response) (\<lambda>_.
      and_then (lift (sanitize_url_for_directory e url)) (\<lambda>dir_name.
      and_then (\<lambda>w. if \<not> os_path_exists w dir_name
                     then and_then (os_makedirs e dir_name)
                            (\<lambda>_. print (py ''Created directory: '' @ dir_name)) w
                     else return () w) (\<lambda>_.
      let html_file_path = os_path_join dir_name (py ''index.html'') in
      and_then (open_w e html_file_path) (\<lambda>_.
      and_then (f_write e html_file_path (body response)) (\<lambda>_.
      and_then (print (py ''HTML successfully saved to: '' @ html_file_path)) (\<lambda>_.
      return (html_file_path, body response, url, dir_name))))))))))"

type_synonym fetched = "pystr option \<times> pystr option \<times> pystr option \<times> pystr option"

fun fetch_except :: "exn \<Rightarrow> fetched io option" where
  "fetch_except (RequestException m) =
     Some (and_then (print (py ''Error fetching URL: '' @ m))
             (\<lambda>_. return (None, None, None, None)))"
| "fetch_except (Exception m) =
     Some (and_then (print (py ''Error: '' @ m)) (\<lambda>_. return (None, None, None, None)))"
| "fetch_except (BaseException m) = None"

definition extract_html_from_url :: "env \<Rightarrow> pystr \<Rightarrow> fetched io" where
  "extract_html_from_url e url =
     try_except
       (and_then (fetch_try e url)
          (\<lambda>(html_file_path, html_content, base_url, dir_name).
             return (Some html_file_path, Some html_content, Some base_url, Some dir_name)))
       fetch_except"

subsection \<open>\<open>extract_linked_styles\<close>\<close>

text \<open>
  The file name for a downloaded stylesheet, from the path of its URL and the number
  \<open>idx\<close> of its link: the two statements after \<open># Generate a safe filename from the URL\<close>.
\<close>

definition css_filename_of :: "pystr \<Rightarrow> nat \<Rightarrow> pystr" where
  "css_filename_of url_path idx =
     (let css_filename = basename url_path
      in if css_filename = [] \<or> \<not> endswith css_filename (py ''.css'')
         then py ''style_'' @ str_nat idx @ py ''.css''
         else css_filename)"

text \<open>
  The body of the inner \<open>try\<close> for one link: download, choose the file name, save,
  rewrite the reference, print the line with the check mark. The document and the list
  of downloaded files change only in the two statements before that \<open>print\<close>. When it
  raises, so does the \<open>print\<close> of the handler, whose line has the cross; the exception
  then leaves the loop and the function, and the document is not read again. So the
  changed document is needed only where the body returns, and is its value.
\<close>

definition link_try ::
  "env \<Rightarrow> pystr \<Rightarrow> nat \<Rightarrow> nat \<Rightarrow> nat \<Rightarrow> pystr \<Rightarrow> soup \<times> pystr list \<Rightarrow> (soup \<times> pystr list) io"
where
  "link_try e dir_name n_links idx link css_url st =
     and_then (print (py ''  ['' @ str_nat idx @ py ''/'' @ str_nat n_links @
                      py ''] Downloading: '' @ css_url)) (\<lambda>_.
     and_then (requests_get e css_url) (\<lambda>response.
     and_then (raise_for_status response) (\<lambda>_.
     and_then (lift (urlparse e css_url)) (\<lambda>parsed_css_url.
     let css_filename = css_filename_of (path parsed_css_url) idx;
         css_file_path = os_path_join dir_name css_filename
     in
     and_then (open_w e css_file_path) (\<lambda>_.
     and_then (f_write e css_file_path (body response)) (\<lambda>_.
     let st' = (tag_set (fst st) link (py ''href'') css_filename, snd st @ [css_filename])
     in
     and_then (print_mark e (py ''    '' @ [10003] @ py '' Saved to: '' @ css_filename)) (\<lambda>_.
     return st')))))))"

fun link_except ::
  "env \<Rightarrow> pystr \<Rightarrow> soup \<times> pystr list \<Rightarrow> exn \<Rightarrow> (soup \<times> pystr list) io option"
where
  "link_except e css_url st (RequestException m) =
     Some (and_then (print_mark e (py ''    '' @ [10007] @ py '' Error downloading '' @
                                   css_url @ py '': '' @ m)) (\<lambda>_. return st))"
| "link_except e css_url st (Exception m) =
     Some (and_then (print_mark e (py ''    '' @ [10007] @ py '' Error processing '' @
                                   css_url @ py '': '' @ m)) (\<lambda>_. return st))"
| "link_except e css_url st (BaseException m) = None"

text \<open>One turn of the \<open>for\<close> loop, and the loop over the links that are left, \<open>idx\<close>
  counting from 1 over all of them.\<close>

definition process_link ::
  "env \<Rightarrow> pystr \<Rightarrow> pystr \<Rightarrow> nat \<Rightarrow> nat \<Rightarrow> nat \<Rightarrow> soup \<times> pystr list \<Rightarrow> (soup \<times> pystr list) io"
where
  "process_link e base_url dir_name n_links idx link st =
     (case tag_get (fst st) link (py ''href'') of
        None \<Rightarrow> return st
      | Some href \<Rightarrow>
          if href = [] then return st
          else
            and_then (lift (urljoin e base_url href)) (\<lambda>css_url.
            try_except (link_try e dir_name n_links idx link css_url st)
              (link_except e css_url st)))"

fun for_links ::
  "env \<Rightarrow> pystr \<Rightarrow> pystr \<Rightarrow> nat \<Rightarrow> nat \<Rightarrow> nat list \<Rightarrow> soup \<times> pystr list \<Rightarrow> (soup \<times> pystr list) io"
where
  "for_links e base_url dir_name n_links idx [] st w = (Inr st, w)"
| "for_links e base_url dir_name n_links idx (link # links) st w =
     (case process_link e base_url dir_name n_links idx link st w of
        (Inl x, w') \<Rightarrow> (Inl x, w')
      | (Inr st', w') \<Rightarrow> for_links e base_url dir_name n_links (Suc idx) links st' w')"

text \<open>
  The statements after the loop, from \<open># Update the HTML file with local references\<close>
  to \<open>return True\<close>, for the document and the list of downloaded files that the loop
  left. Then the body of the outer \<open>try\<close>, and the function with its \<open>except Exception\<close>.
\<close>

definition styles_finish :: "env \<Rightarrow> pystr \<Rightarrow> soup \<times> pystr list \<Rightarrow> bool io" where
  "styles_finish e dir_name st =
     (let html_file_path = os_path_join dir_name (py ''index.html'') in
      and_then (open_w e html_file_path) (\<lambda>_.
      and_then (lift (soup_str e (fst st))) (\<lambda>str_soup.
      and_then (f_write e html_file_path str_soup) (\<lambda>_.
      and_then (print_mark e ([10, 10003] @ py '' Successfully extracted '' @
                              str_nat (length (snd st)) @ py '' stylesheet(s)'')) (\<lambda>_.
      return True)))))"

definition styles_try :: "env \<Rightarrow> pystr \<Rightarrow> pystr \<Rightarrow> pystr \<Rightarrow> bool io" where
  "styles_try e html_content base_url dir_name =
     and_then (lift (BeautifulSoup e html_content)) (\<lambda>soup.
     let stylesheet_links = find_all_stylesheet_links soup in
     if stylesheet_links = [] then
       and_then (print (py ''No linked stylesheets found.'')) (\<lambda>_. return True)
     else
       and_then (print ([10] @ py ''Found '' @ str_nat (length stylesheet_links) @
                        py '' stylesheet(s) to extract...'')) (\<lambda>_.
       and_then (for_links e base_url dir_name (length stylesheet_links) 1 stylesheet_links
                   (soup, []))
         (styles_finish e dir_name)))"

fun styles_except :: "exn \<Rightarrow> bool io option" where
  "styles_except (RequestException m) =
     Some (and_then (print (py ''Error extracting styles: '' @ m)) (\<lambda>_. return False))"
| "styles_except (Exception m) =
     Some (and_then (print (py ''Error extracting styles: '' @ m)) (\<lambda>_. return False))"
| "styles_except (BaseException m) = None"

definition extract_linked_styles :: "env \<Rightarrow> pystr \<Rightarrow> pystr \<Rightarrow> pystr \<Rightarrow> bool io" where
  "extract_linked_styles e html_content base_url dir_name =
     try_except (styles_try e html_content base_url dir_name) styles_except"

subsection \<open>\<open>main\<close>\<close>

text \<open>
  \<open>main\<close> has no handler of its own. \<open>if html_file_path:\<close> is false for \<open>None\<close> and for
  the empty string. The Fetcher gives back four values or four \<open>None\<close>s, so the last case
  of the call of the Mirror is never taken; there Python would pass \<open>None\<close> where a string
  is expected.
\<close>

definition main :: "env \<Rightarrow> unit io" where
  "main e =
     and_then (print (py ''HTML Extractor Tool'')) (\<lambda>_.
     and_then (print (replicate 50 61)) (\<lambda>_.
     and_then (input (py ''Enter the URL to extract HTML from: '')) (\<lambda>line.
     let url = strip line in
     if url = [] then print (py ''Error: URL cannot be empty.'')
     else
       and_then (extract_html_from_url e url)
         (\<lambda>(html_file_path, html_content, base_url, dir_name).
       (case html_file_path of
          None \<Rightarrow> print_mark e ([10, 10007] @ py '' Failed to extract HTML.'')
        | Some p \<Rightarrow>
            if p = [] then print_mark e ([10, 10007] @ py '' Failed to extract HTML.'')
            else
              and_then (print_mark e ([10, 10003] @ py '' Success! HTML file saved at: '' @ p))
                (\<lambda>_.
              and_then (input ([10] @ py ''Do you want to extract linked styles? (y/n): ''))
                (\<lambda>answer.
              let extract_styles = lower (strip answer) in
              if extract_styles \<in> set [py ''y'', py ''yes''] then
                and_then (print ([10] @ py ''Extracting linked stylesheets...'')) (\<lambda>_.
                (case (html_content, base_url, dir_name) of
                   (Some h, Some b, Some d) \<Rightarrow>
                      and_then (extract_linked_styles e h b d) (\<lambda>_. return ())
                 | _ \<Rightarrow> lift (Inl (Exception (py ''TypeError'')))))
              else print (py ''Skipping style extraction.''))))))))"

section \<open>A page and its site, for running the program\<close>

text \<open>
  The page \<open>https://example.com/page\<close> with five stylesheet links: one whose download
  times out, one without a reference, one with an empty reference, \<open>/css/main.css\<close>,
  and \<open>theme/\<close>, whose path ends in a slash. \<open>site\<close> answers for this page with status
  200 and without a redirect, and with status 404 for a URL it does not know; the file
  system never fails, and standard output encodes the two marks.
\<close>

definition page_html :: pystr where
  "page_html = py ''<html><head><link rel=stylesheet href=broken.css>...</html>''"

definition page_soup :: soup where
  "page_soup =
     [(0, Tag (py ''html'') []),
      (1, Tag (py ''head'') []),
      (2, Tag (py ''link'') [(py ''rel'', py ''stylesheet''), (py ''href'', py ''broken.css'')]),
      (2, Tag (py ''link'') [(py ''rel'', py ''stylesheet'')]),
      (2, Tag (py ''link'') [(py ''rel'', py ''stylesheet''), (py ''href'', [])]),
      (2, Tag (py ''link'') [(py ''rel'', py ''stylesheet''), (py ''href'', py ''/css/main.css'')]),
      (2, Tag (py ''link'') [(py ''href'', py ''theme/''), (py ''rel'', py ''alternate stylesheet'')]),
      (1, Tag (py ''body'') []),
      (2, NavigableString (py ''Hello''))]"

definition site_urlparse :: "pystr \<Rightarrow> exn + parsed" where
  "site_urlparse url =
     (if url = py ''https://example.com/page''
        then Inr \<lparr>netloc = py ''example.com'', path = py ''/page''\<rparr>
      else if url = py ''https://example.com/css/main.css''
        then Inr \<lparr>netloc = py ''example.com'', path = py ''/css/main.css''\<rparr>
      else if url = py ''https://example.com/theme/''
        then Inr \<lparr>netloc = py ''example.com'', path = py ''/theme/''\<rparr>
      else if url = py ''https://example.com/broken.css''
        then Inr \<lparr>netloc = py ''example.com'', path = py ''/broken.css''\<rparr>
      else if url = py ''https:///''
        then Inr \<lparr>netloc = [], path = py ''/''\<rparr>
      else Inl (Exception (py ''Invalid IPv6 URL'')))"

definition site_urljoin :: "pystr \<Rightarrow> pystr \<Rightarrow> exn + pystr" where
  "site_urljoin base url =
     (if url = py ''broken.css'' then Inr (py ''https://example.com/broken.css'')
      else if url = py ''/css/main.css'' then Inr (py ''https://example.com/css/main.css'')
      else if url = py ''theme/'' then Inr (py ''https://example.com/theme/'')
      else Inl (Exception (py ''Invalid IPv6 URL'')))"

definition site_http :: "world \<Rightarrow> pystr \<Rightarrow> exn + response" where
  "site_http w url =
     (if url = py ''https://example.com/page''
        then Inr \<lparr>body = page_html, status_code = 200, reason = py ''OK'', response_url = url\<rparr>
      else if url = py ''https://example.com/css/main.css''
        then Inr \<lparr>body = py ''body{margin:0}'', status_code = 200, reason = py ''OK'',
                  response_url = url\<rparr>
      else if url = py ''https://example.com/theme/''
        then Inr \<lparr>body = py ''p{color:red}'', status_code = 200, reason = py ''OK'',
                  response_url = url\<rparr>
      else if url = py ''https://example.com/broken.css''
        then Inl (RequestException (py ''Read timed out.''))
      else Inr \<lparr>body = [], status_code = 404, reason = py ''Not Found'', response_url = url\<rparr>)"

text \<open>Tags are shown as \<open><name k=v ...>\<close> and text as it is.\<close>

fun show_node :: "nat \<times> node \<Rightarrow> pystr" where
  "show_node (d, Tag name attrs) =
     py ''<'' @ name @ concat (map (\<lambda>(k, v). py '' '' @ k @ py ''='' @ v) attrs) @ py ''>''"
| "show_node (d, NavigableString t) = t"

definition site :: env where
  "site = \<lparr>urlparse = site_urlparse, urljoin = site_urljoin, http = site_http,
           mkdir = (\<lambda>w p. None), fopen = (\<lambda>w p. None), fwrite = (\<lambda>w p t. None),
           BeautifulSoup = (\<lambda>html. if html = page_html then Inr page_soup else Inr []),
           soup_str = (\<lambda>s. Inr (concat (map show_node s))),
           stdout_marks = None\<rparr>"

definition world0 :: world where
  "world0 = \<lparr>dirs = {}, files = Map.empty, requests = [], console = [], stdin = []\<rparr>"

text \<open>
  Three more documents: one without a stylesheet link, one whose third stylesheet link
  has a reference that \<open>urljoin\<close> rejects, and one whose third stylesheet link is the
  first with a reference. And the site with a disk on which \<open>index.html\<close> cannot be
  written, while the stylesheets can; the site behind a console whose encoding is ASCII;
  the site when it answers the request for the page with status 300 and a list of
  choices, which is the end of the request since the response names no location to go
  to; and the site when it has moved the page, so that the request for
  \<open>https://example.com/page\<close> is redirected and answered from
  \<open>https://www.example.com/en/page\<close>.
\<close>

definition plain_soup :: soup where
  "plain_soup =
     [(0, Tag (py ''link'') [(py ''rel'', py ''icon''), (py ''href'', py ''favicon.ico'')]),
      (0, Tag (py ''p'') []),
      (1, NavigableString (py ''Hi''))]"


definition theme_soup :: soup where
  "theme_soup =
     [(0, Tag (py ''link'') [(py ''rel'', py ''stylesheet'')]),
      (0, Tag (py ''link'') [(py ''rel'', py ''stylesheet''), (py ''href'', [])]),
      (0, Tag (py ''link'') [(py ''rel'', py ''stylesheet''), (py ''href'', py ''theme/'')]),
      (0, Tag (py ''link'') [(py ''rel'', py ''stylesheet''), (py ''href'', py ''/css/main.css'')])]"


definition site_ascii :: env where
  "site_ascii =
     site\<lparr>stdout_marks := Some (\<lambda>s. py ''ascii codec cannot encode character'')\<rparr>"

definition site_choices :: env where
  "site_choices =
     site\<lparr>http := (\<lambda>w url. Inr \<lparr>body = py ''<a href=page.en>en</a><a href=page.fr>fr</a>'',
                                status_code = 300, reason = py ''Multiple Choices'',
                                response_url = url\<rparr>)\<rparr>"

definition site_moved :: env where
  "site_moved =
     site\<lparr>http := (\<lambda>w url. Inr \<lparr>body = page_html, status_code = 200, reason = py ''OK'',
                                response_url = py ''https://www.example.com/en/page''\<rparr>)\<rparr>"

section \<open>Rules for statements\<close>

lemma and_then_Inr:
  "and_then m f w = (Inr b, w'') \<longleftrightarrow> (\<exists>a w'. m w = (Inr a, w') \<and> f a w' = (Inr b, w''))"
  by (auto simp: and_then_def split: prod.splits sum.splits)


lemma and_then_ok: "m w = (Inr a, w') \<Longrightarrow> and_then m f w = f a w'"
  by (simp add: and_then_def)

lemma and_then_err: "m w = (Inl x, w') \<Longrightarrow> and_then m f w = (Inl x, w')"
  by (simp add: and_then_def)

lemma and_then_print [simp]:
  "and_then (print s) f w = f () (w\<lparr>console := console w @ [s]\<rparr>)"
  by (simp add: and_then_def print_def)

lemma and_then_print_mark:
  "and_then (print_mark e s) f w =
     (case stdout_marks e of
        None \<Rightarrow> f () (w\<lparr>console := console w @ [s]\<rparr>)
      | Some msg \<Rightarrow> (Inl (Exception (msg s)), w))"
  by (simp add: and_then_def print_mark_def print_def lift_def split: option.splits)

lemma and_then_return [simp]: "and_then (return a) f w = f a w"
  by (simp add: and_then_def return_def)

lemma and_then_lift:
  "and_then (lift r) f w = (case r of Inl x \<Rightarrow> (Inl x, w) | Inr a \<Rightarrow> f a w)"
  by (simp add: and_then_def lift_def split: sum.splits)

lemma and_then_requests_get:
  "and_then (requests_get e url) f w =
     (case http e w url of
        Inl x \<Rightarrow> (Inl x, w\<lparr>requests := requests w @ [url]\<rparr>)
      | Inr r \<Rightarrow> f r (w\<lparr>requests := requests w @ [url]\<rparr>))"
  by (simp add: and_then_def requests_get_def split: sum.splits)

lemma and_then_input:
  "and_then (input prompt) f w =
     (case stdin w of
        [] \<Rightarrow> (Inl (Exception (py ''EOF when reading a line'')),
               w\<lparr>console := console w @ [prompt]\<rparr>)
      | l # ls \<Rightarrow> f l (w\<lparr>console := console w @ [prompt], stdin := ls\<rparr>))"
  by (simp add: and_then_def input_def split: list.splits)

lemma and_then_open_w:
  "and_then (open_w e p) f w =
     (case fopen e w p of
        Some x \<Rightarrow> (Inl x, w)
      | None \<Rightarrow> f () (w\<lparr>files := (files w)(p \<mapsto> [])\<rparr>))"
  by (simp add: and_then_def open_w_def split: option.splits)

lemma and_then_f_write:
  "and_then (f_write e p t) f w =
     (case fwrite e w p t of
        Some (x, left) \<Rightarrow> (Inl x, w\<lparr>files := (files w)(p \<mapsto> left)\<rparr>)
      | None \<Rightarrow> f () (w\<lparr>files := (files w)(p \<mapsto> t)\<rparr>))"
  by (simp add: and_then_def f_write_def split: option.splits)

text \<open>A part \<open>g\<close> of the state that every statement of a sequence keeps is kept by the
  sequence.\<close>

lemma and_then_keeps:
  assumes "\<And>w. g (snd (m w)) = g w" and "\<And>a w. g (snd (f a w)) = g w"
  shows "g (snd (and_then m f w)) = g w"
proof (cases "m w")
  case (Pair r w')
  have "g w' = g w" using assms(1)[of w] Pair by simp
  then show ?thesis using Pair assms(2)
    by (cases r) (simp_all add: and_then_def)
qed

lemmas requests_and_then = and_then_keeps[where g = requests]

lemma requests_print [simp]: "requests (snd (print s w)) = requests w"
  by (simp add: print_def)

lemma requests_print_mark [simp]: "requests (snd (print_mark e s w)) = requests w"
  by (simp add: print_mark_def print_def lift_def split: option.splits)

lemma requests_return [simp]: "requests (snd (return a w)) = requests w"
  by (simp add: return_def)

lemma requests_lift [simp]: "requests (snd (lift r w)) = requests w"
  by (simp add: lift_def)

lemma requests_raise_for_status [simp]: "requests (snd (raise_for_status r w)) = requests w"
  by (simp add: raise_for_status_def return_def lift_def split: option.splits)

lemma requests_os_makedirs [simp]: "requests (snd (os_makedirs e p w)) = requests w"
  by (simp add: os_makedirs_def split: option.splits)

lemma requests_open_w [simp]: "requests (snd (open_w e p w)) = requests w"
  by (simp add: open_w_def split: option.splits)

lemma requests_f_write [simp]: "requests (snd (f_write e p t w)) = requests w"
  by (simp add: f_write_def split: option.splits prod.splits)

lemma requests_requests_get [simp]:
  "requests (snd (requests_get e url w)) = requests w @ [url]"
  by (simp add: requests_get_def)

lemma try_except_after:
  assumes "\<And>x k w. h x = Some k \<Longrightarrow> g (snd (k w)) = g w"
  shows "g (snd (try_except m h w)) = g (snd (m w))"
proof (cases "m w")
  case (Pair r w')
  then show ?thesis using assms
    by (cases r) (auto simp add: try_except_def split: option.splits)
qed

text \<open>The lines still to be read from standard input are touched by \<open>input\<close> only.\<close>

lemmas stdin_and_then = and_then_keeps[where g = stdin]

lemma stdin_print [simp]: "stdin (snd (print s w)) = stdin w"
  by (simp add: print_def)

lemma stdin_return [simp]: "stdin (snd (return a w)) = stdin w"
  by (simp add: return_def)

lemma stdin_lift [simp]: "stdin (snd (lift r w)) = stdin w"
  by (simp add: lift_def)

lemma stdin_raise_for_status [simp]: "stdin (snd (raise_for_status r w)) = stdin w"
  by (simp add: raise_for_status_def return_def lift_def split: option.splits)

lemma stdin_os_makedirs [simp]: "stdin (snd (os_makedirs e p w)) = stdin w"
  by (simp add: os_makedirs_def split: option.splits)

lemma stdin_open_w [simp]: "stdin (snd (open_w e p w)) = stdin w"
  by (simp add: open_w_def split: option.splits)

lemma stdin_f_write [simp]: "stdin (snd (f_write e p t w)) = stdin w"
  by (simp add: f_write_def split: option.splits prod.splits)

lemma stdin_requests_get [simp]: "stdin (snd (requests_get e url w)) = stdin w"
  by (simp add: requests_get_def)

text \<open>The status codes for which \<open>raise_for_status\<close> raises.\<close>

lemma http_error_None: "http_error r = None \<longleftrightarrow> \<not> (400 \<le> status_code r \<and> status_code r < 600)"
  by (auto simp: http_error_def)

lemma http_error_Some:
  "400 \<le> status_code r \<and> status_code r < 600 \<Longrightarrow> \<exists>m. http_error r = Some m"
  using http_error_None[of r] by (cases "http_error r") auto

text \<open>The definitions that a run on a given environment unfolds.\<close>

lemmas run_defs = fetch_try_def Let_def requests_get_def
  raise_for_status_def http_error_def return_def lift_def and_then_def print_def print_mark_def
  os_makedirs_def open_w_def
  f_write_def os_path_exists_def os_path_join_def sanitize_url_for_directory_def
  add_scheme_def startswith_def endswith_def strip_chars_def re_sub_class_def
  invalid_chars_def separator_chars_def suffix_to_prefix

lemmas site_defs = site_def site_urlparse_def site_urljoin_def site_http_def world0_def
  page_html_def py_def

section \<open>The directory name\<close>

lemma re_sub_class_free:
  "c \<in> set (re_sub_class cls s) \<Longrightarrow> c = 95 \<or> (c \<in> set s \<and> c \<notin> set cls)"
  by (auto simp: re_sub_class_def split: if_splits)

lemma re_sub_class_Nil [simp]: "re_sub_class cls s = [] \<longleftrightarrow> s = []"
  by (simp add: re_sub_class_def)

lemma forbidden_chars:
  "set (py ''<>:'' @ [34] @ py ''|?*/'' @ [92]) = set invalid_chars \<union> set separator_chars"
  by (auto simp: invalid_chars_def separator_chars_def py_def)

lemma underscore_allowed: "(95::nat) \<notin> set invalid_chars \<union> set separator_chars"
  by (simp add: invalid_chars_def separator_chars_def py_def)

lemma fallback_allowed:
  "c \<in> set (py ''extracted_page'') \<Longrightarrow> c \<notin> set invalid_chars \<union> set separator_chars"
  by (auto simp: invalid_chars_def separator_chars_def py_def)

lemma sanitize_Inr:
  assumes "sanitize_url_for_directory e url = Inr d"
  shows "d = py ''extracted_page'' \<or>
         (\<exists>s. d = re_sub_class separator_chars (re_sub_class invalid_chars s))"
  using assms
  by (cases "urlparse e url") (auto simp: sanitize_url_for_directory_def Let_def split: if_splits)

text \<open>
  Claim C2. The directory name is a function of the URL alone: of the environment only
  \<open>urlparse\<close> matters, so the same URL gives the same name whatever the network and the
  file system do. A name never holds one of \<open>< > : " | ? *\<close>, a slash or a backslash. When
  host and path together are empty once the slashes at both ends are removed, the name
  is \<open>extracted_page\<close>.
\<close>

theorem sanitize_url_for_directory_safe:
  "(\<forall>e'. urlparse e' url = urlparse e url \<longrightarrow>
       sanitize_url_for_directory e' url = sanitize_url_for_directory e url) \<and>
   (\<forall>d. sanitize_url_for_directory e url = Inr d \<longrightarrow>
       (\<forall>c \<in> set d. c \<notin> set (py ''<>:'' @ [34] @ py ''|?*/'' @ [92]))) \<and>
   (\<forall>p. urlparse e url = Inr p \<and> strip_chars (netloc p @ path p) (py ''/'') = [] \<longrightarrow>
       sanitize_url_for_directory e url = Inr (py ''extracted_page''))"
proof (intro conjI allI impI ballI)
  fix e' :: env assume "urlparse e' url = urlparse e url"
  then show "sanitize_url_for_directory e' url = sanitize_url_for_directory e url"
    by (simp add: sanitize_url_for_directory_def)
next
  fix d c assume d: "sanitize_url_for_directory e url = Inr d" and c: "c \<in> set d"
  from sanitize_Inr[OF d] c
  have "c \<in> set (py ''extracted_page'') \<or>
     (\<exists>s. c \<in> set (re_sub_class separator_chars (re_sub_class invalid_chars s)))"
    by auto
  then have "c \<notin> set invalid_chars \<union> set separator_chars"
    using fallback_allowed underscore_allowed
    by (auto dest!: re_sub_class_free)
  then show "c \<notin> set (py ''<>:'' @ [34] @ py ''|?*/'' @ [92])"
    unfolding forbidden_chars .
next
  fix p assume "urlparse e url = Inr p \<and> strip_chars (netloc p @ path p) (py ''/'') = []"
  then show "sanitize_url_for_directory e url = Inr (py ''extracted_page'')"
    by (auto simp: sanitize_url_for_directory_def Let_def)
qed

theorem sanitize_url_for_directory_safe_witness:
  "sanitize_url_for_directory (site\<lparr>http := (\<lambda>w u. Inl (RequestException []))\<rparr>)
       (py ''https://example.com/page'') = Inr (py ''example.com_page'') \<and>
   set (py ''example.com_page'') \<inter> set (py ''<>:'' @ [34] @ py ''|?*/'' @ [92]) = {} \<and>
   sanitize_url_for_directory site (py ''https:///'') = Inr (py ''extracted_page'')"
proof -
  have p: "urlparse site (py ''https://example.com/page'') =
             Inr \<lparr>netloc = py ''example.com'', path = py ''/page''\<rparr>"
    by (simp add: site_def site_urlparse_def)
  have d: "sanitize_url_for_directory site (py ''https://example.com/page'') =
             Inr (py ''example.com_page'')"
    unfolding sanitize_url_for_directory_def p
    by (simp add: Let_def strip_chars_def re_sub_class_def
        invalid_chars_def separator_chars_def py_def)
  have q: "urlparse site (py ''https:///'') = Inr \<lparr>netloc = [], path = py ''/''\<rparr>"
    by (simp add: site_def site_urlparse_def) (simp add: py_def)
  have s: "strip_chars (netloc \<lparr>netloc = [], path = py ''/''\<rparr> @
                        path \<lparr>netloc = [], path = py ''/''\<rparr>) (py ''/'') = []"
    by (simp add: strip_chars_def py_def)
  have A: "\<forall>c \<in> set (py ''example.com_page'').
             c \<notin> set (py ''<>:'' @ [34] @ py ''|?*/'' @ [92])"
    using sanitize_url_for_directory_safe[of "py ''https://example.com/page''" site] d by blast
  have B: "sanitize_url_for_directory site (py ''https:///'') = Inr (py ''extracted_page'')"
    using sanitize_url_for_directory_safe[of "py ''https:///''" site] q s by blast
  have "urlparse (site\<lparr>http := (\<lambda>w u. Inl (RequestException []))\<rparr>)
          (py ''https://example.com/page'') = urlparse site (py ''https://example.com/page'')"
    by simp
  then have C: "sanitize_url_for_directory (site\<lparr>http := (\<lambda>w u. Inl (RequestException []))\<rparr>)
          (py ''https://example.com/page'') =
        sanitize_url_for_directory site (py ''https://example.com/page'')"
    using sanitize_url_for_directory_safe[of "py ''https://example.com/page''" site] by blast
  from A have A': "set (py ''example.com_page'') \<inter>
      set (py ''<>:'' @ [34] @ py ''|?*/'' @ [92]) = {}"
    by blast
  show ?thesis using A' B C d by simp
qed

section \<open>The Page Fetcher\<close>

lemma fetch_try_requests:
  "requests (snd (fetch_try e url w)) = requests w @ [add_scheme url]"
  by (simp add: fetch_try_def Let_def and_then_requests_get requests_and_then split: sum.splits)

lemma fetch_requests:
  "requests (snd (extract_html_from_url e url w)) = requests w @ [add_scheme url]"
proof -
  obtain r w' where f: "fetch_try e url w = (r, w')" by (cases "fetch_try e url w")
  have "requests w' = requests w @ [add_scheme url]"
    using fetch_try_requests[of e url w] f by simp
  then show ?thesis using f
    apply (cases r)
    subgoal for x
      by (cases x) (simp_all add: extract_html_from_url_def try_except_def and_then_err)
    subgoal for a
      by (cases a) (simp add: extract_html_from_url_def try_except_def and_then_ok return_def)
    done
qed

text \<open>
  Claim C6. The Fetcher sends exactly one request. For a URL that starts with neither
  \<open>http://\<close> nor \<open>https://\<close> it goes to \<open>https://\<close> followed by the URL; for a URL that
  starts with one of the two it goes to the URL as given.
\<close>

theorem fetch_url_scheme:
  "(\<not> startswith url (py ''http://'') \<and> \<not> startswith url (py ''https://'') \<longrightarrow>
      requests (snd (extract_html_from_url e url w)) = requests w @ [py ''https://'' @ url]) \<and>
   (startswith url (py ''http://'') \<or> startswith url (py ''https://'') \<longrightarrow>
      requests (snd (extract_html_from_url e url w)) = requests w @ [url])"
  by (simp add: fetch_requests add_scheme_def)

theorem fetch_url_scheme_witness:
  "requests (snd (extract_html_from_url site (py ''example.com/page'') world0)) =
     [py ''https://example.com/page''] \<and>
   requests (snd (extract_html_from_url site (py ''http://example.com/page'') world0)) =
     [py ''http://example.com/page'']"
proof -
  have a: "\<not> startswith (py ''example.com/page'') (py ''http://'')"
          "\<not> startswith (py ''example.com/page'') (py ''https://'')"
          "startswith (py ''http://example.com/page'') (py ''http://'')"
    by (simp_all add: startswith_def py_def)
  have b: "py ''https://'' @ py ''example.com/page'' = py ''https://example.com/page''"
    by (simp add: py_def)
  have c: "requests world0 = []" by (simp add: world0_def)
  show ?thesis
    using fetch_url_scheme[of "py ''example.com/page''" site world0]
      fetch_url_scheme[of "py ''http://example.com/page''" site world0] a b c
    by simp
qed

text \<open>
  What a failure leaves: when the request raises, or the response has an error status,
  the body of the \<open>try\<close> raises after its first two statements.
\<close>

lemma fetch_try_http_error:
  assumes "http e (snd (print (py ''Fetching HTML from: '' @ add_scheme url) w))
             (add_scheme url) = Inl x"
  shows "fetch_try e url w =
           (Inl x, w\<lparr>console := console w @ [py ''Fetching HTML from: '' @ add_scheme url],
                      requests := requests w @ [add_scheme url]\<rparr>)"
  using assms by (simp add: fetch_try_def Let_def and_then_requests_get print_def)

lemma fetch_try_bad_status:
  assumes "http e (snd (print (py ''Fetching HTML from: '' @ add_scheme url) w))
             (add_scheme url) = Inr r"
    and "http_error r = Some m"
  shows "fetch_try e url w =
           (Inl (RequestException m),
            w\<lparr>console := console w @ [py ''Fetching HTML from: '' @ add_scheme url],
              requests := requests w @ [add_scheme url]\<rparr>)"
  using assms
  by (simp add: fetch_try_def Let_def and_then_requests_get print_def raise_for_status_def
      and_then_lift)

text \<open>What a success tells: the values the body of the \<open>try\<close> returns.\<close>

lemma fetch_try_Inr:
  assumes "fetch_try e url w = (Inr (p, h, b, d), w')"
  shows "b = add_scheme url \<and>
         (\<exists>r. http e (snd (print (py ''Fetching HTML from: '' @ add_scheme url) w))
                 (add_scheme url) = Inr r \<and>
              http_error r = None \<and> h = body r) \<and>
         sanitize_url_for_directory e (add_scheme url) = Inr d \<and>
         p = os_path_join d (py ''index.html'') \<and> files w' p = Some h"
  using assms unfolding fetch_try_def Let_def
  by (auto simp: and_then_Inr requests_get_def raise_for_status_def lift_def return_def
      print_def open_w_def f_write_def split: option.splits if_splits)

lemma fetch_Some:
  assumes "fst (extract_html_from_url e url w) = Inr (p, h, Some b, d)"
  shows "\<exists>p' h' d'. p = Some p' \<and> h = Some h' \<and> d = Some d' \<and>
           fetch_try e url w = (Inr (p', h', b, d'), snd (extract_html_from_url e url w))"
proof (cases "fetch_try e url w")
  case (Pair r w')
  show ?thesis
  proof (cases r)
    case (Inl x)
    then show ?thesis using Pair assms
      by (cases x) (auto simp: extract_html_from_url_def try_except_def and_then_err return_def)
  next
    case (Inr a)
    then show ?thesis using Pair assms
      by (cases a) (auto simp: extract_html_from_url_def try_except_def and_then_ok return_def)
  qed
qed



lemma site_fetch_try:
  "fetch_try site (py ''example.com/page'') world0 =
    (Inr (py ''example.com_page/index.html'', page_html, py ''https://example.com/page'',
          py ''example.com_page''),
     \<lparr>dirs = {py ''example.com_page''},
      files = [py ''example.com_page/index.html'' \<mapsto> page_html],
      requests = [py ''https://example.com/page''],
      console = [py ''Fetching HTML from: https://example.com/page'',
                 py ''Created directory: example.com_page'',
                 py ''HTML successfully saved to: example.com_page/index.html''],
      stdin = []\<rparr>)"
  by (simp add: run_defs site_defs)

lemma site_fetch:
  "extract_html_from_url site (py ''example.com/page'') world0 =
    (Inr (Some (py ''example.com_page/index.html''), Some page_html,
          Some (py ''https://example.com/page''), Some (py ''example.com_page'')),
     \<lparr>dirs = {py ''example.com_page''},
      files = [py ''example.com_page/index.html'' \<mapsto> page_html],
      requests = [py ''https://example.com/page''],
      console = [py ''Fetching HTML from: https://example.com/page'',
                 py ''Created directory: example.com_page'',
                 py ''HTML successfully saved to: example.com_page/index.html''],
      stdin = []\<rparr>)"
  by (simp add: extract_html_from_url_def try_except_def and_then_def site_fetch_try return_def)

text \<open>The Fetcher reads nothing from standard input.\<close>

lemma fetch_try_stdin: "stdin (snd (fetch_try e url w)) = stdin w"
  by (simp add: fetch_try_def Let_def stdin_and_then)

lemma fetch_except_keeps_stdin: "fetch_except x = Some k \<Longrightarrow> stdin (snd (k w)) = stdin w"
  by (cases x) (auto simp: return_def)

lemma fetch_stdin: "stdin (snd (extract_html_from_url e url w)) = stdin w"
  unfolding extract_html_from_url_def
  by (simp add: try_except_after[where g = stdin] fetch_except_keeps_stdin stdin_and_then
      fetch_try_stdin split: prod.splits)

text \<open>
  Runs on the site that answers with status 300, and on the site that has moved the page.
\<close>

lemma site_choices_fetch:
  "extract_html_from_url site_choices (py ''example.com/page'') world0 =
    (Inr (Some (py ''example.com_page/index.html''),
          Some (py ''<a href=page.en>en</a><a href=page.fr>fr</a>''),
          Some (py ''https://example.com/page''), Some (py ''example.com_page'')),
     \<lparr>dirs = {py ''example.com_page''},
      files = [py ''example.com_page/index.html'' \<mapsto>
                 py ''<a href=page.en>en</a><a href=page.fr>fr</a>''],
      requests = [py ''https://example.com/page''],
      console = [py ''Fetching HTML from: https://example.com/page'',
                 py ''Created directory: example.com_page'',
                 py ''HTML successfully saved to: example.com_page/index.html''],
      stdin = []\<rparr>)"
  by (simp add: extract_html_from_url_def try_except_def site_choices_def run_defs site_defs)

lemma site_moved_fetch:
  "fst (extract_html_from_url site_moved (py ''example.com/page'') world0) =
     Inr (Some (py ''example.com_page/index.html''), Some page_html,
          Some (py ''https://example.com/page''), Some (py ''example.com_page''))"
  by (simp add: extract_html_from_url_def try_except_def site_moved_def run_defs site_defs)




text \<open>
  Claim C9 as it was stated does not hold. The fetch that is answered with status 300, a
  status that is not a success status, makes the directory and writes \<open>index.html\<close>: the
  status check lets every status outside 400 to 599 pass.
\<close>

theorem fetch_at_status_300_writes:
  "dirs (snd (extract_html_from_url site_choices (py ''example.com/page'') world0)) =
     {py ''example.com_page''} \<and>
   files (snd (extract_html_from_url site_choices (py ''example.com/page'') world0))
     (py ''example.com_page/index.html'') =
     Some (py ''<a href=page.en>en</a><a href=page.fr>fr</a>'') \<and>
   dirs world0 = {} \<and> files world0 (py ''example.com_page/index.html'') = None \<and>
   (\<forall>w. http site_choices w (py ''https://example.com/page'') =
      Inr \<lparr>body = py ''<a href=page.en>en</a><a href=page.fr>fr</a>'', status_code = 300,
           reason = py ''Multiple Choices'', response_url = py ''https://example.com/page''\<rparr>)"
  by (simp add: site_choices_fetch) (simp add: site_choices_def world0_def)

text \<open>
  Claim C9, as amended. When the request raises, or the status code of the response is
  from 400 to 599, the Fetcher leaves the directories and the files as they were: the
  status is checked before the directory is made and the file is written.
\<close>

theorem fetch_failure_no_fs_effect:
  assumes "http e (snd (print (py ''Fetching HTML from: '' @ add_scheme url) w))
             (add_scheme url) = Inl x \<or>
     (\<exists>r. http e (snd (print (py ''Fetching HTML from: '' @ add_scheme url) w))
               (add_scheme url) = Inr r \<and> 400 \<le> status_code r \<and> status_code r < 600)"
  shows "dirs (snd (extract_html_from_url e url w)) = dirs w \<and>
         files (snd (extract_html_from_url e url w)) = files w"
proof -
  have "\<exists>y w'. fetch_try e url w = (Inl y, w') \<and> dirs w' = dirs w \<and> files w' = files w"
    using assms
  proof (elim disjE exE conjE)
    assume "http e (snd (print (py ''Fetching HTML from: '' @ add_scheme url) w))
              (add_scheme url) = Inl x"
    from fetch_try_http_error[OF this] show ?thesis by simp
  next
    fix r
    assume r: "http e (snd (print (py ''Fetching HTML from: '' @ add_scheme url) w))
                 (add_scheme url) = Inr r"
      and "400 \<le> status_code r" "status_code r < 600"
    then obtain m where "http_error r = Some m" using http_error_Some[of r] by blast
    from fetch_try_bad_status[OF r this] show ?thesis by simp
  qed
  then obtain y w' where f: "fetch_try e url w = (Inl y, w')"
    and "dirs w' = dirs w" "files w' = files w"
    by blast
  then show ?thesis
    by (cases y) (auto simp: extract_html_from_url_def try_except_def and_then_err return_def)
qed

theorem fetch_failure_no_fs_effect_witness:
  "dirs (snd (extract_html_from_url
         (site\<lparr>http := (\<lambda>w u. Inl (RequestException (py ''Read timed out.'')))\<rparr>)
         (py ''example.com/page'') world0)) = dirs world0 \<and>
   files (snd (extract_html_from_url
         (site\<lparr>http := (\<lambda>w u. Inl (RequestException (py ''Read timed out.'')))\<rparr>)
         (py ''example.com/page'') world0)) = files world0 \<and>
   dirs (snd (extract_html_from_url site (py ''example.com/missing'') world0)) = dirs world0 \<and>
   files (snd (extract_html_from_url site (py ''example.com/missing'') world0)) = files world0"
proof -
  have a: "http (site\<lparr>http := (\<lambda>w u. Inl (RequestException (py ''Read timed out.'')))\<rparr>)
             (snd (print (py ''Fetching HTML from: '' @ add_scheme (py ''example.com/page''))
                world0))
             (add_scheme (py ''example.com/page'')) =
           Inl (RequestException (py ''Read timed out.''))"
    by simp
  have b: "\<exists>r. http site
             (snd (print (py ''Fetching HTML from: '' @ add_scheme (py ''example.com/missing''))
                world0))
             (add_scheme (py ''example.com/missing'')) = Inr r \<and>
             400 \<le> status_code r \<and> status_code r < 600"
    by (simp add: run_defs site_defs)
  show ?thesis
    using fetch_failure_no_fs_effect[of _ _ _ "RequestException (py ''Read timed out.'')", OF disjI1, OF a]
      fetch_failure_no_fs_effect[of site "py ''example.com/missing''" world0 "Exception []",
        OF disjI2, OF b]
    by blast
qed

section \<open>The Stylesheet Mirror\<close>

lemma tag_set_length [simp]: "length (tag_set s link k v) = length s"
  by (auto simp: tag_set_def split: prod.splits node.splits)

lemma tag_set_other: "j \<noteq> link \<Longrightarrow> tag_set s link k v ! j = s ! j"
  by (auto simp: tag_set_def split: prod.splits node.splits)

lemma tag_get_tag_set_other:
  "j \<noteq> link \<Longrightarrow> tag_get (tag_set s link k v) j k' = tag_get s j k'"
  by (simp add: tag_get_def tag_set_other)

lemma map_of_dict_set: "map_of (dict_set k v kvs) k = Some v"
  by (induction kvs) auto

lemma tag_get_tag_set_same:
  "tag_get s link k = Some v' \<Longrightarrow> tag_get (tag_set s link k v) link k = Some v"
  by (auto simp: tag_get_def tag_set_def map_of_dict_set split: prod.splits node.splits if_splits)

lemma return_Inr [simp]: "return a w = (Inr b, w') \<longleftrightarrow> b = a \<and> w' = w"
  by (auto simp: return_def)

lemma lift_Inr [simp]: "lift r w = (Inr a, w') \<longleftrightarrow> r = Inr a \<and> w' = w"
  by (auto simp: lift_def)

lemma print_Inr [simp]:
  "print s w = (Inr a, w') \<longleftrightarrow> w' = w\<lparr>console := console w @ [s]\<rparr>"
  by (auto simp: print_def)

lemma print_mark_Inr [simp]:
  "print_mark e s w = (Inr a, w') \<longleftrightarrow>
     stdout_marks e = None \<and> w' = w\<lparr>console := console w @ [s]\<rparr>"
  by (auto simp: print_mark_def print_def lift_def split: option.splits)

lemma requests_get_Inr [simp]:
  "requests_get e u w = (Inr r, w') \<longleftrightarrow>
     http e w u = Inr r \<and> w' = w\<lparr>requests := requests w @ [u]\<rparr>"
  by (auto simp: requests_get_def)

lemma raise_for_status_Inr [simp]:
  "raise_for_status r w = (Inr a, w') \<longleftrightarrow> http_error r = None \<and> w' = w"
  by (auto simp: raise_for_status_def return_def lift_def split: option.splits)

lemma os_makedirs_Inr [simp]:
  "os_makedirs e p w = (Inr a, w') \<longleftrightarrow>
     mkdir e w p = None \<and> w' = w\<lparr>dirs := insert p (dirs w)\<rparr>"
  by (auto simp: os_makedirs_def split: option.splits)

lemma open_w_Inr [simp]:
  "open_w e p w = (Inr a, w') \<longleftrightarrow> fopen e w p = None \<and> w' = w\<lparr>files := (files w)(p \<mapsto> [])\<rparr>"
  by (auto simp: open_w_def split: option.splits)

lemma f_write_Inr [simp]:
  "f_write e p t w = (Inr a, w') \<longleftrightarrow>
     fwrite e w p t = None \<and> w' = w\<lparr>files := (files w)(p \<mapsto> t)\<rparr>"
  by (auto simp: f_write_def split: option.splits)

lemma link_try_Inr:
  assumes "link_try e dir n idx link u st w = (Inr st', w')"
  shows "\<exists>r p. http e (snd (print (py ''  ['' @ str_nat idx @ py ''/'' @ str_nat n @
                      py ''] Downloading: '' @ u) w)) u = Inr r \<and> http_error r = None \<and>
           urlparse e u = Inr p \<and>
           st' = (tag_set (fst st) link (py ''href'') (css_filename_of (path p) idx),
                  snd st @ [css_filename_of (path p) idx]) \<and>
           files w' (os_path_join dir (css_filename_of (path p) idx)) = Some (body r) \<and>
           requests w' = requests w @ [u] \<and> stdout_marks e = None"
  using assms unfolding link_try_def Let_def
  by (simp add: and_then_Inr print_def) (clarsimp simp: print_def)

lemma link_except_returns:
  "link_except e u st x = Some k \<Longrightarrow> k w = (Inr st', w') \<Longrightarrow> st' = st"
  by (cases x) (auto simp: and_then_Inr)

lemma process_link_Inr:
  assumes "process_link e base dir n idx link st w = (Inr st', w')"
  shows "st' = st \<or> (\<exists>fn. st' = (tag_set (fst st) link (py ''href'') fn, snd st @ [fn]))"
proof (cases "tag_get (fst st) link (py ''href'')")
  case None
  then show ?thesis using assms by (simp add: process_link_def return_def)
next
  case (Some hr)
  show ?thesis
  proof (cases "hr = []")
    case True
    then show ?thesis using assms Some by (simp add: process_link_def return_def)
  next
    case False
    then obtain u where u: "urljoin e base hr = Inr u"
      and t: "try_except (link_try e dir n idx link u st) (link_except e u st) w = (Inr st', w')"
      using assms Some by (cases "urljoin e base hr") (auto simp: process_link_def and_then_lift)
    obtain r w1 where l: "link_try e dir n idx link u st w = (r, w1)"
      by (cases "link_try e dir n idx link u st w")
    show ?thesis
    proof (cases r)
      case (Inl x)
      then show ?thesis using t l link_except_returns[of e u st x _ w1 st' w']
        by (auto simp: try_except_def split: option.splits)
    next
      case (Inr a)
      then have "link_try e dir n idx link u st w = (Inr st', w')"
        using t l by (simp add: try_except_def)
      from link_try_Inr[OF this] show ?thesis by auto
    qed
  qed
qed


lemma process_link_tag_get:
  assumes "process_link e base dir n idx link st w = (Inr st', w')" and "j \<noteq> link"
  shows "tag_get (fst st') j k = tag_get (fst st) j k"
  using process_link_Inr[OF assms(1)] assms(2) by (auto simp: tag_get_tag_set_other)


lemma for_links_tag_get:
  assumes "for_links e base dir n idx links st w = (Inr st', w')" and "j \<notin> set links"
  shows "tag_get (fst st') j k = tag_get (fst st) j k"
  using assms
proof (induction links arbitrary: idx st w)
  case Nil
  then show ?case by simp
next
  case (Cons link links)
  from Cons.prems(1) obtain st1 w1 where
    p: "process_link e base dir n idx link st w = (Inr st1, w1)"
    and r: "for_links e base dir n (Suc idx) links st1 w1 = (Inr st', w')"
    by (auto split: prod.splits sum.splits)
  have "tag_get (fst st') j k = tag_get (fst st1) j k" using Cons.IH[OF r] Cons.prems(2) by simp
  then show ?case using process_link_tag_get[OF p] Cons.prems(2) by simp
qed

lemma for_links_append:
  "for_links e base dir n idx (xs @ ys) st w =
     (case for_links e base dir n idx xs st w of
        (Inl x, w') \<Rightarrow> (Inl x, w')
      | (Inr st', w') \<Rightarrow> for_links e base dir n (idx + length xs) ys st' w')"
  by (induction xs arbitrary: idx st w) (auto split: prod.splits sum.splits)

text \<open>The links that \<open>find_all\<close> returns are positions of the document, each once.\<close>

lemma distinct_find_all: "distinct (find_all_stylesheet_links s)"
  by (simp add: find_all_stylesheet_links_def)

lemma process_link_skip:
  assumes "tag_get (fst st) link (py ''href'') = None \<or>
           tag_get (fst st) link (py ''href'') = Some []"
  shows "process_link e base dir n idx link st w = (Inr st, w)"
  using assms by (auto simp: process_link_def return_def)

lemma process_link_keeps_empty:
  assumes "process_link e base dir n idx k st w = (Inr st', w')"
    and "tag_get (fst st) link (py ''href'') = Some []"
  shows "tag_get (fst st') link (py ''href'') = Some []"
proof (cases "k = link")
  case True
  then show ?thesis using assms process_link_skip[of st link e base dir n idx w] by simp
next
  case False
  then show ?thesis using process_link_Inr[OF assms(1)] assms(2)
    by (auto simp: tag_get_tag_set_other)
qed

lemma for_links_keeps_empty:
  assumes "for_links e base dir n idx links st w = (Inr st', w')"
    and "tag_get (fst st) link (py ''href'') = Some []"
  shows "tag_get (fst st') link (py ''href'') = Some []"
  using assms
proof (induction links arbitrary: idx st w)
  case Nil
  then show ?case by simp
next
  case (Cons k links)
  from Cons.prems(1) obtain st1 w1 where
    p: "process_link e base dir n idx k st w = (Inr st1, w1)"
    and r: "for_links e base dir n (Suc idx) links st1 w1 = (Inr st', w')"
    by (auto split: prod.splits sum.splits)
  from Cons.IH[OF r process_link_keeps_empty[OF p Cons.prems(2)]] show ?case .
qed

lemma print_Inl [simp]: "print s w \<noteq> (Inl x, w')"
  by (simp add: print_def)

lemma print_mark_Inl [simp]:
  "print_mark e s w = (Inl x, w') \<longleftrightarrow>
     (\<exists>msg. stdout_marks e = Some msg \<and> x = Exception (msg s)) \<and> w' = w"
  by (auto simp: print_mark_def print_def lift_def split: option.splits)

lemma return_Inl [simp]: "return a w \<noteq> (Inl x, w')"
  by (simp add: return_def)

lemma lift_Inl [simp]: "lift r w = (Inl x, w') \<longleftrightarrow> r = Inl x \<and> w' = w"
  by (auto simp: lift_def)

lemma open_w_Inl [simp]: "open_w e p w = (Inl x, w') \<longleftrightarrow> fopen e w p = Some x \<and> w' = w"
  by (auto simp: open_w_def split: option.splits)

lemma f_write_Inl [simp]:
  "f_write e p t w = (Inl x, w') \<longleftrightarrow>
     (\<exists>left. fwrite e w p t = Some (x, left) \<and> w' = w\<lparr>files := (files w)(p \<mapsto> left)\<rparr>)"
  by (auto simp: f_write_def split: option.splits)

lemma css_filename_of_eq:
  "css_filename_of url_path idx =
     (if basename url_path \<noteq> [] \<and> endswith (basename url_path) (py ''.css'')
      then basename url_path else py ''style_'' @ str_nat idx @ py ''.css'')"
  by (simp add: css_filename_of_def Let_def)

text \<open>
  One turn of the loop for a link with a reference that \<open>urljoin\<close> resolves: when the
  download and the saving succeed, and when the download fails with a request error.
  In each case the outcome depends on whether the console can print the marks.
\<close>

lemma link_try_saved:
  assumes "http e (w\<lparr>console := console w @ [py ''  ['' @ str_nat idx @ py ''/'' @ str_nat n @
                      py ''] Downloading: '' @ u]\<rparr>) u = Inr r"
    and "\<not> (400 \<le> status_code r \<and> status_code r < 600)"
    and "urlparse e u = Inr p"
    and "fn = css_filename_of (path p) idx"
    and "w1 = w\<lparr>console := console w @ [py ''  ['' @ str_nat idx @ py ''/'' @ str_nat n @
                      py ''] Downloading: '' @ u], requests := requests w @ [u]\<rparr>"
    and "fopen e w1 (os_path_join dir fn) = None"
    and "fwrite e (w1\<lparr>files := (files w1)(os_path_join dir fn \<mapsto> [])\<rparr>) (os_path_join dir fn)
           (body r) = None"
  shows "link_try e dir n idx link u st w =
           (case stdout_marks e of
              None \<Rightarrow>
                (Inr (tag_set (fst st) link (py ''href'') fn, snd st @ [fn]),
                 w1\<lparr>files := (files w1)(os_path_join dir fn \<mapsto> body r),
                    console := console w1 @ [py ''    '' @ [10003] @ py '' Saved to: '' @ fn]\<rparr>)
            | Some msg \<Rightarrow>
                (Inl (Exception (msg (py ''    '' @ [10003] @ py '' Saved to: '' @ fn))),
                 w1\<lparr>files := (files w1)(os_path_join dir fn \<mapsto> body r)\<rparr>))"
proof -
  have h: "http_error r = None" using assms(2) by (simp add: http_error_None)
  have a: "raise_for_status r = return ()" by (simp add: raise_for_status_def h)
  show ?thesis
    unfolding link_try_def Let_def
    using assms(1,3,6,7) unfolding assms(4,5)
    by (simp add: and_then_requests_get a and_then_lift and_then_open_w and_then_f_write
        and_then_print_mark return_def split: option.splits)
qed

lemma process_link_saved:
  assumes "tag_get (fst st) link (py ''href'') = Some hr" and "hr \<noteq> []"
    and "urljoin e base hr = Inr u"
    and "http e (w\<lparr>console := console w @ [py ''  ['' @ str_nat idx @ py ''/'' @ str_nat n @
                      py ''] Downloading: '' @ u]\<rparr>) u = Inr r"
    and "\<not> (400 \<le> status_code r \<and> status_code r < 600)"
    and "urlparse e u = Inr p"
    and "fn = css_filename_of (path p) idx"
    and "w1 = w\<lparr>console := console w @ [py ''  ['' @ str_nat idx @ py ''/'' @ str_nat n @
                      py ''] Downloading: '' @ u], requests := requests w @ [u]\<rparr>"
    and "fopen e w1 (os_path_join dir fn) = None"
    and "fwrite e (w1\<lparr>files := (files w1)(os_path_join dir fn \<mapsto> [])\<rparr>) (os_path_join dir fn)
           (body r) = None"
  shows "process_link e base dir n idx link st w =
           (case stdout_marks e of
              None \<Rightarrow>
                (Inr (tag_set (fst st) link (py ''href'') fn, snd st @ [fn]),
                 w1\<lparr>files := (files w1)(os_path_join dir fn \<mapsto> body r),
                    console := console w1 @ [py ''    '' @ [10003] @ py '' Saved to: '' @ fn]\<rparr>)
            | Some msg \<Rightarrow>
                (Inl (Exception (msg (py ''    '' @ [10007] @ py '' Error processing '' @ u @
                        py '': '' @ msg (py ''    '' @ [10003] @ py '' Saved to: '' @ fn)))),
                 w1\<lparr>files := (files w1)(os_path_join dir fn \<mapsto> body r)\<rparr>))"
  using link_try_saved[OF assms(4-10), of link st] assms(1-3)
  by (simp add: process_link_def and_then_lift try_except_def print_mark_def lift_def
      and_then_def split: option.splits)





text \<open>The requests of a turn, and of the loop when it comes to its end.\<close>

lemma link_try_requests:
  "requests (snd (link_try e dir n idx link u st w)) = requests w @ [u]"
  by (simp add: link_try_def Let_def and_then_requests_get requests_and_then split: sum.splits)

lemma link_except_keeps_requests:
  "link_except e u st x = Some k \<Longrightarrow> requests (snd (k w)) = requests w"
  by (cases x) (auto simp: requests_and_then)

lemma process_link_requests:
  assumes "tag_get (fst st) link (py ''href'') = Some hr" and "hr \<noteq> []"
    and "urljoin e base hr = Inr u"
  shows "requests (snd (process_link e base dir n idx link st w)) = requests w @ [u]"
  using assms
  by (simp add: process_link_def and_then_lift link_try_requests
      try_except_after[where g = requests] link_except_keeps_requests)

lemma process_link_Inr_requests:
  assumes "process_link e base dir n idx link st w = (Inr st', w')"
  shows "requests w' = requests w @
           (case tag_get (fst st) link (py ''href'') of
              None \<Rightarrow> []
            | Some hr \<Rightarrow> if hr = [] then []
                         else (case urljoin e base hr of Inl x \<Rightarrow> [] | Inr u \<Rightarrow> [u]))"
proof (cases "tag_get (fst st) link (py ''href'')")
  case None
  then show ?thesis using assms by (simp add: process_link_def)
next
  case (Some hr)
  show ?thesis
  proof (cases "hr = []")
    case True
    then show ?thesis using assms Some by (simp add: process_link_def)
  next
    case False
    show ?thesis
    proof (cases "urljoin e base hr")
      case (Inl y)
      then show ?thesis using assms Some False by (simp add: process_link_def and_then_lift)
    next
      case (Inr u)
      from process_link_requests[OF Some False Inr, of dir n idx w] assms Some False Inr
      show ?thesis by simp
    qed
  qed
qed

lemma for_links_requests:
  assumes "for_links e base dir n idx links st w = (Inr st', w')" and "distinct links"
  shows "requests w' = requests w @
           concat (map (\<lambda>link. case tag_get (fst st) link (py ''href'') of
              None \<Rightarrow> []
            | Some hr \<Rightarrow> if hr = [] then []
                         else (case urljoin e base hr of Inl x \<Rightarrow> [] | Inr u \<Rightarrow> [u])) links)"
  using assms
proof (induction links arbitrary: idx st w)
  case Nil
  then show ?case by simp
next
  case (Cons k links)
  let ?f = "\<lambda>s link. case tag_get s link (py ''href'') of
              None \<Rightarrow> []
            | Some hr \<Rightarrow> if hr = [] then []
                         else (case urljoin e base hr of Inl x \<Rightarrow> [] | Inr u \<Rightarrow> [u])"
  from Cons.prems(1) obtain st1 w1 where
    p: "process_link e base dir n idx k st w = (Inr st1, w1)"
    and r: "for_links e base dir n (Suc idx) links st1 w1 = (Inr st', w')"
    by (auto split: prod.splits sum.splits)
  have 1: "requests w1 = requests w @ ?f (fst st) k"
    by (rule process_link_Inr_requests[OF p])
  have 2: "requests w' = requests w1 @ concat (map (?f (fst st1)) links)"
    using Cons.IH[OF r] Cons.prems(2) by simp
  have "\<forall>j \<in> set links. tag_get (fst st1) j (py ''href'') = tag_get (fst st) j (py ''href'')"
    using process_link_tag_get[OF p] Cons.prems(2) by (metis distinct.simps(2))
  then have 3: "map (?f (fst st1)) links = map (?f (fst st)) links"
    by simp
  show ?case using 1 2 3 by simp
qed

text \<open>The statements after the loop keep the requests; a value they return is \<open>True\<close>.\<close>

lemma styles_finish_requests: "requests (snd (styles_finish e dir st w)) = requests w"
  by (simp add: styles_finish_def Let_def requests_and_then)


lemma styles_finish_run:
  "styles_finish e dir st w =
     (case fopen e w (os_path_join dir (py ''index.html'')) of
        Some x \<Rightarrow> (Inl x, w)
      | None \<Rightarrow>
         (case soup_str e (fst st) of
            Inl x \<Rightarrow> (Inl x, w\<lparr>files := (files w)(os_path_join dir (py ''index.html'') \<mapsto> [])\<rparr>)
          | Inr s \<Rightarrow>
             (case fwrite e (w\<lparr>files := (files w)(os_path_join dir (py ''index.html'') \<mapsto> [])\<rparr>)
                     (os_path_join dir (py ''index.html'')) s of
                Some (x, left) \<Rightarrow>
                  (Inl x, w\<lparr>files := (files w)(os_path_join dir (py ''index.html'') \<mapsto> left)\<rparr>)
              | None \<Rightarrow>
                 (case stdout_marks e of
                    Some msg \<Rightarrow>
                      (Inl (Exception (msg ([10, 10003] @ py '' Successfully extracted '' @
                              str_nat (length (snd st)) @ py '' stylesheet(s)''))),
                       w\<lparr>files := (files w)(os_path_join dir (py ''index.html'') \<mapsto> s)\<rparr>)
                  | None \<Rightarrow>
                      (Inr True,
                       w\<lparr>files := (files w)(os_path_join dir (py ''index.html'') \<mapsto> s),
                         console := console w @
                           [[10, 10003] @ py '' Successfully extracted '' @
                            str_nat (length (snd st)) @ py '' stylesheet(s)'']\<rparr>)))))"
  by (simp add: styles_finish_def Let_def and_then_open_w and_then_lift and_then_f_write
      and_then_print_mark return_def split: option.splits sum.splits prod.splits)

text \<open>
  The Mirror on a document with stylesheet links: after the parser and the line that
  tells how many links were found, it is the loop over all of them, from the document
  as parsed and with no file downloaded, followed by the statements after the loop.
\<close>

lemma styles_try_links:
  assumes "BeautifulSoup e html = Inr soup" and "find_all_stylesheet_links soup \<noteq> []"
  shows "styles_try e html base dir w =
           and_then (for_links e base dir (length (find_all_stylesheet_links soup)) 1
                       (find_all_stylesheet_links soup) (soup, []))
             (styles_finish e dir)
             (w\<lparr>console := console w @ [[10] @ py ''Found '' @
                   str_nat (length (find_all_stylesheet_links soup)) @
                   py '' stylesheet(s) to extract...'']\<rparr>)"
  using assms by (simp add: styles_try_def and_then_lift Let_def)



lemma mirror_True_iff:
  "fst (extract_linked_styles e html base dir w) = Inr True \<longleftrightarrow>
     (\<exists>w'. styles_try e html base dir w = (Inr True, w'))"
proof (cases "styles_try e html base dir w")
  case (Pair r w')
  show ?thesis
  proof (cases r)
    case (Inl x)
    then show ?thesis using Pair
      by (cases x) (auto simp: extract_linked_styles_def try_except_def return_def)
  next
    case (Inr b)
    then show ?thesis using Pair
      by (simp add: extract_linked_styles_def try_except_def)
  qed
qed

lemma mirror_after_try:
  assumes "styles_try e html base dir w = (Inr b, w')"
  shows "extract_linked_styles e html base dir w = (Inr b, w')"
  using assms by (simp add: extract_linked_styles_def try_except_def)

text \<open>
  The turn of one link in the run of the Mirror. When the links before it have had their
  turns, the link has its turn with the number of links before it plus one; when the
  turn returns, the Mirror goes on with the links after it, and when it raises, the
  handler of the outer \<open>try\<close> is all that is left.
\<close>

lemma mirror_turn:
  assumes "BeautifulSoup e html = Inr soup"
    and "find_all_stylesheet_links soup = pre @ link # post"
    and "for_links e base dir (length (pre @ link # post)) 1 pre (soup, [])
           (w0\<lparr>console := console w0 @ [[10] @ py ''Found '' @
                 str_nat (length (pre @ link # post)) @
                 py '' stylesheet(s) to extract...'']\<rparr>) = (Inr st, w)"
  shows "styles_try e html base dir w0 =
           (case process_link e base dir (length (pre @ link # post)) (Suc (length pre)) link st w
            of (Inl x, w') \<Rightarrow> (Inl x, w')
             | (Inr st', w') \<Rightarrow>
                 and_then (for_links e base dir (length (pre @ link # post))
                             (Suc (Suc (length pre))) post st')
                   (styles_finish e dir) w')"
proof -
  have ne: "find_all_stylesheet_links soup \<noteq> []" using assms(2) by simp
  show ?thesis
    unfolding styles_try_links[OF assms(1) ne] assms(2) using assms(3)
    by (simp add: and_then_def for_links_append split: prod.splits sum.splits)
qed

lemma mirror_turn_Inr:
  assumes "BeautifulSoup e html = Inr soup"
    and "find_all_stylesheet_links soup = pre @ link # post"
    and "for_links e base dir (length (pre @ link # post)) 1 pre (soup, [])
           (w0\<lparr>console := console w0 @ [[10] @ py ''Found '' @
                 str_nat (length (pre @ link # post)) @
                 py '' stylesheet(s) to extract...'']\<rparr>) = (Inr st, w)"
    and "process_link e base dir (length (pre @ link # post)) (Suc (length pre)) link st w =
           (Inr st', w')"
  shows "extract_linked_styles e html base dir w0 =
           try_except
             (and_then (for_links e base dir (length (pre @ link # post))
                          (Suc (Suc (length pre))) post st')
                (styles_finish e dir))
             styles_except w'"
  unfolding extract_linked_styles_def try_except_def mirror_turn[OF assms(1-3)] assms(4)
  by simp

lemma mirror_turn_Inl:
  assumes "BeautifulSoup e html = Inr soup"
    and "find_all_stylesheet_links soup = pre @ link # post"
    and "for_links e base dir (length (pre @ link # post)) 1 pre (soup, [])
           (w0\<lparr>console := console w0 @ [[10] @ py ''Found '' @
                 str_nat (length (pre @ link # post)) @
                 py '' stylesheet(s) to extract...'']\<rparr>) = (Inr st, w)"
    and "process_link e base dir (length (pre @ link # post)) (Suc (length pre)) link st w =
           (Inl (Exception m), w')"
  shows "extract_linked_styles e html base dir w0 =
           (Inr False, w'\<lparr>console := console w' @ [py ''Error extracting styles: '' @ m]\<rparr>)"
  unfolding extract_linked_styles_def try_except_def mirror_turn[OF assms(1-3)] assms(4)
  by (simp add: return_def)

text \<open>The reference of a link is the one of the parsed document until its own turn.\<close>

lemma href_before_turn:
  assumes "find_all_stylesheet_links soup = pre @ link # post"
    and "for_links e base dir n idx pre (soup, []) w1 = (Inr st, w)"
  shows "tag_get (fst st) link k = tag_get soup link k"
proof -
  have "distinct (pre @ link # post)" using distinct_find_all[of soup] assms(1) by simp
  then have "link \<notin> set pre" by simp
  from for_links_tag_get[OF assms(2) this] show ?thesis by simp
qed

text \<open>
  The end of the run: when the loop has come to its end and opening \<open>index.html\<close>,
  \<open>str(soup)\<close>, the write and the last \<open>print\<close> raise nothing, the Mirror returns \<open>True\<close>
  and \<open>index.html\<close> holds the document as the loop left it.
\<close>

lemma mirror_True:
  assumes "BeautifulSoup e html = Inr soup" and "find_all_stylesheet_links soup \<noteq> []"
    and "for_links e base dir (length (find_all_stylesheet_links soup)) 1
           (find_all_stylesheet_links soup) (soup, [])
           (w\<lparr>console := console w @ [[10] @ py ''Found '' @
                 str_nat (length (find_all_stylesheet_links soup)) @
                 py '' stylesheet(s) to extract...'']\<rparr>) = (Inr (soup', dl), w2)"
    and "fopen e w2 (os_path_join dir (py ''index.html'')) = None"
    and "soup_str e soup' = Inr s"
    and "fwrite e (w2\<lparr>files := (files w2)(os_path_join dir (py ''index.html'') \<mapsto> [])\<rparr>)
           (os_path_join dir (py ''index.html'')) s = None"
    and "stdout_marks e = None"
  shows "extract_linked_styles e html base dir w =
           (Inr True, w2\<lparr>files := (files w2)(os_path_join dir (py ''index.html'') \<mapsto> s),
              console := console w2 @ [[10, 10003] @ py '' Successfully extracted '' @
                         str_nat (length dl) @ py '' stylesheet(s)'']\<rparr>)"
proof -
  have "styles_try e html base dir w =
          (Inr True, w2\<lparr>files := (files w2)(os_path_join dir (py ''index.html'') \<mapsto> s),
             console := console w2 @ [[10, 10003] @ py '' Successfully extracted '' @
                        str_nat (length dl) @ py '' stylesheet(s)'']\<rparr>)"
    unfolding styles_try_links[OF assms(1,2)] using assms(3)
    by (simp add: and_then_def styles_finish_run assms(4-7))
  then show ?thesis by (rule mirror_after_try)
qed


text \<open>A run in which the Mirror returns \<open>True\<close> has sent one request for each link of the
  document with a reference: to \<open>urljoin\<close> of the base URL and the reference.\<close>

lemma mirror_True_requests:
  assumes "BeautifulSoup e html = Inr soup"
    and "fst (extract_linked_styles e html base dir w) = Inr True"
  shows "requests (snd (extract_linked_styles e html base dir w)) =
           requests w @
           concat (map (\<lambda>link. case tag_get soup link (py ''href'') of
              None \<Rightarrow> []
            | Some hr \<Rightarrow> if hr = [] then []
                         else (case urljoin e base hr of Inl x \<Rightarrow> [] | Inr u \<Rightarrow> [u]))
             (find_all_stylesheet_links soup))"
proof (cases "find_all_stylesheet_links soup = []")
  case True
  then show ?thesis using assms(1)
    by (simp add: extract_linked_styles_def styles_try_def try_except_def and_then_lift Let_def
        return_def)
next
  case False
  let ?links = "find_all_stylesheet_links soup"
  let ?w1 = "w\<lparr>console := console w @ [[10] @ py ''Found '' @ str_nat (length ?links) @
                py '' stylesheet(s) to extract...'']\<rparr>"
  from assms(2) obtain w' where t: "styles_try e html base dir w = (Inr True, w')"
    by (auto simp: mirror_True_iff)
  then obtain st w2 where
    loop: "for_links e base dir (length ?links) 1 ?links (soup, []) ?w1 = (Inr st, w2)"
    and fin: "styles_finish e dir st w2 = (Inr True, w')"
    unfolding styles_try_links[OF assms(1) False] by (auto simp: and_then_Inr)
  have 1: "requests w2 = requests ?w1 @
           concat (map (\<lambda>link. case tag_get (fst (soup, [])) link (py ''href'') of
              None \<Rightarrow> []
            | Some hr \<Rightarrow> if hr = [] then []
                         else (case urljoin e base hr of Inl x \<Rightarrow> [] | Inr u \<Rightarrow> [u])) ?links)"
    using for_links_requests[OF loop distinct_find_all] by simp
  have 2: "requests w' = requests w2"
    using styles_finish_requests[of e dir st w2] fin by simp
  have 3: "extract_linked_styles e html base dir w = (Inr True, w')"
    using t by (rule mirror_after_try)
  show ?thesis using 1 2 3 by simp
qed

section \<open>Runs of the Mirror on the site\<close>

lemmas mirror_defs = process_link_def link_try_def try_except_def
  css_filename_of_def basename_def tag_get_def tag_set_def str_nat.simps page_soup_def

lemma site_links: "find_all_stylesheet_links page_soup = [2, 3, 4, 5, 6]"
  by (simp add: find_all_stylesheet_links_def page_soup_def isspace_def py_def upt_rec)

lemma plain_links: "find_all_stylesheet_links plain_soup = []"
  by (simp add: find_all_stylesheet_links_def plain_soup_def isspace_def py_def upt_rec)


lemma theme_links: "find_all_stylesheet_links theme_soup = [0, 1, 2, 3]"
  by (simp add: find_all_stylesheet_links_def theme_soup_def isspace_def py_def upt_rec)


lemma site_loop:
  "fst (for_links site (py ''https://example.com/page'') (py ''example.com_page'') 5 1
     [2, 3, 4, 5, 6] (page_soup, []) world0) =
   Inr (tag_set (tag_set page_soup 5 (py ''href'') (py ''main.css'')) 6 (py ''href'')
          (py ''style_5.css''), [py ''main.css'', py ''style_5.css''])"
  by (simp add: mirror_defs run_defs site_defs)

text \<open>The loop on the page, after the line that tells the number of links.\<close>

lemma site_found_loop:
  "fst (for_links site (py ''https://example.com/page'') (py ''example.com_page'') 5 1
     [2, 3, 4, 5, 6] (page_soup, [])
     (world0\<lparr>console := console world0 @
        [[10] @ py ''Found '' @ str_nat 5 @ py '' stylesheet(s) to extract...'']\<rparr>)) =
   Inr (tag_set (tag_set page_soup 5 (py ''href'') (py ''main.css'')) 6 (py ''href'')
          (py ''style_5.css''), [py ''main.css'', py ''style_5.css''])"
  by (simp add: mirror_defs run_defs site_defs)







text \<open>The Mirror on the page as the site serves it.\<close>

lemma site_mirror_True:
  "fst (extract_linked_styles site page_html (py ''https://example.com/page'')
          (py ''example.com_page'') world0) = Inr True"
proof -
  let ?B = "py ''https://example.com/page''" and ?D = "py ''example.com_page''"
  let ?soup' = "tag_set (tag_set page_soup 5 (py ''href'') (py ''main.css'')) 6 (py ''href'')
          (py ''style_5.css'')"
  have p: "BeautifulSoup site page_html = Inr page_soup" by (simp add: site_def)
  have ne: "find_all_stylesheet_links page_soup \<noteq> []" by (simp add: site_links)
  have len: "length [2, 3, 4, 5, 6::nat] = 5" by simp
  obtain w2 where loop5: "for_links site ?B ?D 5 1 [2, 3, 4, 5, 6] (page_soup, [])
      (world0\<lparr>console := console world0 @
        [[10] @ py ''Found '' @ str_nat 5 @ py '' stylesheet(s) to extract...'']\<rparr>) =
      (Inr (?soup', [py ''main.css'', py ''style_5.css'']), w2)"
    using site_found_loop by (simp add: prod_eq_iff)
  have loop: "for_links site ?B ?D (length (find_all_stylesheet_links page_soup)) 1
      (find_all_stylesheet_links page_soup) (page_soup, [])
      (world0\<lparr>console := console world0 @
        [[10] @ py ''Found '' @ str_nat (length (find_all_stylesheet_links page_soup)) @
         py '' stylesheet(s) to extract...'']\<rparr>) =
      (Inr (?soup', [py ''main.css'', py ''style_5.css'']), w2)"
    unfolding site_links len by (rule loop5)
  have "extract_linked_styles site page_html ?B ?D world0 =
      (Inr True,
       w2\<lparr>files := (files w2)(os_path_join ?D (py ''index.html'') \<mapsto>
                 concat (map show_node ?soup')),
          console := console w2 @ [[10, 10003] @ py '' Successfully extracted '' @
                         str_nat (length [py ''main.css'', py ''style_5.css'']) @
                         py '' stylesheet(s)'']\<rparr>)"
    by (rule mirror_True[OF p ne loop]) (simp_all add: site_def)
  then show ?thesis by simp
qed

section \<open>What the Mirror does\<close>

text \<open>
  Claim C5. When the parsed document has no stylesheet link, the Mirror returns \<open>True\<close>
  and does nothing but print one line: it sends no request and writes no file, so the
  saved document and every reference in it stay as they were.
\<close>

theorem no_stylesheet_links:
  assumes "BeautifulSoup e html = Inr soup" and "find_all_stylesheet_links soup = []"
  shows "extract_linked_styles e html base dir w =
           (Inr True, w\<lparr>console := console w @ [py ''No linked stylesheets found.'']\<rparr>) \<and>
         requests (snd (extract_linked_styles e html base dir w)) = requests w \<and>
         files (snd (extract_linked_styles e html base dir w)) = files w \<and>
         dirs (snd (extract_linked_styles e html base dir w)) = dirs w"
  using assms
  by (simp add: extract_linked_styles_def styles_try_def try_except_def and_then_lift Let_def
      return_def)

theorem no_stylesheet_links_witness:
  "extract_linked_styles (site\<lparr>BeautifulSoup := (\<lambda>html. Inr plain_soup)\<rparr>) (py ''<p>Hi</p>'')
     (py ''https://example.com/page'') (py ''example.com_page'') world0 =
     (Inr True, world0\<lparr>console := [py ''No linked stylesheets found.'']\<rparr>) \<and>
   requests (snd (extract_linked_styles (site\<lparr>BeautifulSoup := (\<lambda>html. Inr plain_soup)\<rparr>)
     (py ''<p>Hi</p>'') (py ''https://example.com/page'') (py ''example.com_page'') world0)) = []"
proof -
  have a: "BeautifulSoup (site\<lparr>BeautifulSoup := (\<lambda>html. Inr plain_soup)\<rparr>) (py ''<p>Hi</p>'') =
             Inr plain_soup"
    by simp
  have c: "console world0 = []" "requests world0 = []" by (simp_all add: world0_def)
  from no_stylesheet_links[OF a plain_links] c show ?thesis by simp
qed

text \<open>
  Claim C10. A link whose \<open>href\<close> is the empty string is passed over like a link with
  no \<open>href\<close>: its turn of the loop changes neither the document nor the list of
  downloaded files nor the state (no request, no file), and no later turn rewrites its
  reference.
\<close>

theorem empty_href_skipped:
  assumes "tag_get (fst st) link (py ''href'') = Some []"
  shows "process_link e base dir n idx link st w = (Inr st, w) \<and>
         (\<forall>st0 k. tag_get (fst st0) k (py ''href'') = None \<longrightarrow>
            process_link e base dir n idx k st0 w = (Inr st0, w)) \<and>
         (\<forall>links i st' w'. for_links e base dir n i links st w = (Inr st', w') \<longrightarrow>
            tag_get (fst st') link (py ''href'') = Some [])"
  using assms process_link_skip for_links_keeps_empty by blast

theorem empty_href_skipped_witness:
  "process_link site (py ''https://example.com/page'') (py ''example.com_page'') 5 3 4
     (page_soup, []) world0 = (Inr (page_soup, []), world0) \<and>
   process_link site (py ''https://example.com/page'') (py ''example.com_page'') 5 3 3
     (page_soup, []) world0 = (Inr (page_soup, []), world0) \<and>
   tag_get (tag_set (tag_set page_soup 5 (py ''href'') (py ''main.css'')) 6 (py ''href'')
          (py ''style_5.css'')) 4 (py ''href'') = Some []"
proof -
  let ?B = "py ''https://example.com/page''" and ?D = "py ''example.com_page''"
  let ?soup' = "tag_set (tag_set page_soup 5 (py ''href'') (py ''main.css'')) 6 (py ''href'')
          (py ''style_5.css'')"
  have a: "tag_get (fst (page_soup, [])) 4 (py ''href'') = Some []"
    by (simp add: tag_get_def page_soup_def py_def)
  have b: "tag_get (fst (page_soup, [])) 3 (py ''href'') = None"
    by (simp add: tag_get_def page_soup_def py_def)
  have c: "for_links site ?B ?D 5 1 [2, 3, 4, 5, 6] (page_soup, []) world0 =
             (Inr (?soup', [py ''main.css'', py ''style_5.css'']),
              snd (for_links site ?B ?D 5 1 [2, 3, 4, 5, 6] (page_soup, []) world0))"
    using site_loop by (simp add: prod_eq_iff)
  note t = empty_href_skipped[OF a, of site ?B ?D 5 3 world0]
  have 1: "process_link site ?B ?D 5 3 4 (page_soup, []) world0 = (Inr (page_soup, []), world0)"
    by (rule t[THEN conjunct1])
  have 2: "process_link site ?B ?D 5 3 3 (page_soup, []) world0 = (Inr (page_soup, []), world0)"
    by (rule t[THEN conjunct2, THEN conjunct1, THEN spec, THEN spec, THEN mp, OF b])
  have 3: "tag_get (fst (?soup', [py ''main.css'', py ''style_5.css''])) 4 (py ''href'') = Some []"
    by (rule t[THEN conjunct2, THEN conjunct2, THEN spec, THEN spec, THEN spec, THEN spec,
          THEN mp, OF c])
  show ?thesis using 1 2 3 by simp
qed

text \<open>
  Claim C4. Take a run of the Mirror on a document whose stylesheet links, as \<open>find_all\<close>
  returns them, are \<open>pre\<close>, then \<open>link\<close>, then \<open>post\<close>, and in which the links of \<open>pre\<close>
  have had their turns, whatever became of them: downloaded, failed or passed over for
  want of a reference. Let the download of \<open>link\<close> succeed: \<open>urljoin\<close> resolves its
  reference to \<open>u\<close>, the request is answered with a status that is not an error status,
  and the file can be opened and written. Then the file is saved under \<open>fn\<close>: the last
  segment of the path of \<open>u\<close> when that is not empty and ends in \<open>.css\<close>, and
  \<open>style_<n>.css\<close> otherwise, \<open>n\<close> being the number of links in \<open>pre\<close> plus one. When the
  console prints the marks, the Mirror goes on with the links of \<open>post\<close>, from the
  document in which the reference of \<open>link\<close> is \<open>fn\<close>. When it cannot, the file has been
  saved under \<open>fn\<close> all the same, and the Mirror returns \<open>False\<close> at once.
\<close>

theorem stylesheet_filename:
  assumes "BeautifulSoup e html = Inr soup"
    and "find_all_stylesheet_links soup = pre @ link # post"
    and "for_links e base dir (length (pre @ link # post)) 1 pre (soup, [])
           (w0\<lparr>console := console w0 @ [[10] @ py ''Found '' @
                 str_nat (length (pre @ link # post)) @
                 py '' stylesheet(s) to extract...'']\<rparr>) = (Inr st, w)"
    and "tag_get soup link (py ''href'') = Some hr" and "hr \<noteq> []"
    and "urljoin e base hr = Inr u"
    and "line = py ''  ['' @ str_nat (Suc (length pre)) @ py ''/'' @
                str_nat (length (pre @ link # post)) @ py ''] Downloading: '' @ u"
    and "http e (w\<lparr>console := console w @ [line]\<rparr>) u = Inr r"
    and "\<not> (400 \<le> status_code r \<and> status_code r < 600)"
    and "urlparse e u = Inr p"
    and "fn = (if basename (path p) \<noteq> [] \<and> endswith (basename (path p)) (py ''.css'')
               then basename (path p)
               else py ''style_'' @ str_nat (Suc (length pre)) @ py ''.css'')"
    and "w1 = w\<lparr>console := console w @ [line], requests := requests w @ [u]\<rparr>"
    and "fopen e w1 (os_path_join dir fn) = None"
    and "fwrite e (w1\<lparr>files := (files w1)(os_path_join dir fn \<mapsto> [])\<rparr>) (os_path_join dir fn)
           (body r) = None"
  shows "(stdout_marks e = None \<longrightarrow>
            extract_linked_styles e html base dir w0 =
              try_except
                (and_then (for_links e base dir (length (pre @ link # post))
                             (Suc (Suc (length pre))) post
                             (tag_set (fst st) link (py ''href'') fn, snd st @ [fn]))
                   (styles_finish e dir))
                styles_except
                (w1\<lparr>files := (files w1)(os_path_join dir fn \<mapsto> body r),
                    console := console w1 @
                      [py ''    '' @ [10003] @ py '' Saved to: '' @ fn]\<rparr>)) \<and>
         (\<forall>msg. stdout_marks e = Some msg \<longrightarrow>
            extract_linked_styles e html base dir w0 =
              (Inr False,
               w1\<lparr>files := (files w1)(os_path_join dir fn \<mapsto> body r),
                   console := console w1 @
                     [py ''Error extracting styles: '' @
                      msg (py ''    '' @ [10007] @ py '' Error processing '' @ u @ py '': '' @
                           msg (py ''    '' @ [10003] @ py '' Saved to: '' @ fn))]\<rparr>))"
proof -
  let ?n = "length (pre @ link # post)" and ?idx = "Suc (length pre)"
  have href: "tag_get (fst st) link (py ''href'') = Some hr"
    using href_before_turn[OF assms(2,3)] assms(4) by simp
  have fn: "fn = css_filename_of (path p) ?idx"
    unfolding assms(11) css_filename_of_eq ..
  have h: "http e (w\<lparr>console := console w @ [py ''  ['' @ str_nat ?idx @ py ''/'' @
             str_nat ?n @ py ''] Downloading: '' @ u]\<rparr>) u = Inr r"
    using assms(8) unfolding assms(7) .
  have w1: "w1 = w\<lparr>console := console w @ [py ''  ['' @ str_nat ?idx @ py ''/'' @
             str_nat ?n @ py ''] Downloading: '' @ u], requests := requests w @ [u]\<rparr>"
    using assms(12) unfolding assms(7) .
  note turn = process_link_saved[OF href assms(5,6) h assms(9,10) fn w1 assms(13,14)]
  show ?thesis
  proof (intro conjI allI impI)
    assume "stdout_marks e = None"
    then have "process_link e base dir ?n ?idx link st w =
        (Inr (tag_set (fst st) link (py ''href'') fn, snd st @ [fn]),
         w1\<lparr>files := (files w1)(os_path_join dir fn \<mapsto> body r),
            console := console w1 @ [py ''    '' @ [10003] @ py '' Saved to: '' @ fn]\<rparr>)"
      using turn by simp
    from mirror_turn_Inr[OF assms(1-3) this]
    show "extract_linked_styles e html base dir w0 =
              try_except
                (and_then (for_links e base dir (length (pre @ link # post))
                             (Suc (Suc (length pre))) post
                             (tag_set (fst st) link (py ''href'') fn, snd st @ [fn]))
                   (styles_finish e dir))
                styles_except
                (w1\<lparr>files := (files w1)(os_path_join dir fn \<mapsto> body r),
                    console := console w1 @
                      [py ''    '' @ [10003] @ py '' Saved to: '' @ fn]\<rparr>)" .
  next
    fix msg assume "stdout_marks e = Some msg"
    then have "process_link e base dir ?n ?idx link st w =
        (Inl (Exception (msg (py ''    '' @ [10007] @ py '' Error processing '' @ u @
                        py '': '' @ msg (py ''    '' @ [10003] @ py '' Saved to: '' @ fn)))),
         w1\<lparr>files := (files w1)(os_path_join dir fn \<mapsto> body r)\<rparr>)"
      using turn by simp
    from mirror_turn_Inl[OF assms(1-3) this]
    show "extract_linked_styles e html base dir w0 =
              (Inr False,
               w1\<lparr>files := (files w1)(os_path_join dir fn \<mapsto> body r),
                   console := console w1 @
                     [py ''Error extracting styles: '' @
                      msg (py ''    '' @ [10007] @ py '' Error processing '' @ u @ py '': '' @
                           msg (py ''    '' @ [10003] @ py '' Saved to: '' @ fn))]\<rparr>)"
      by simp
  qed
qed

theorem stylesheet_filename_witness:
  "fst (extract_linked_styles (site\<lparr>BeautifulSoup := (\<lambda>html. Inr theme_soup)\<rparr>) page_html
          (py ''https://example.com/page'') (py ''example.com_page'') world0) = Inr True \<and>
   files (snd (extract_linked_styles (site\<lparr>BeautifulSoup := (\<lambda>html. Inr theme_soup)\<rparr>)
          page_html (py ''https://example.com/page'') (py ''example.com_page'') world0))
     (py ''example.com_page/style_3.css'') = Some (py ''p{color:red}'') \<and>
   files (snd (extract_linked_styles (site\<lparr>BeautifulSoup := (\<lambda>html. Inr theme_soup)\<rparr>)
          page_html (py ''https://example.com/page'') (py ''example.com_page'') world0))
     (py ''example.com_page/main.css'') = Some (py ''body{margin:0}'') \<and>
   files (snd (extract_linked_styles (site\<lparr>BeautifulSoup := (\<lambda>html. Inr theme_soup)\<rparr>)
          page_html (py ''https://example.com/page'') (py ''example.com_page'') world0))
     (py ''example.com_page/index.html'') =
     Some (concat (map show_node
       (tag_set (tag_set theme_soup 2 (py ''href'') (py ''style_3.css'')) 3 (py ''href'')
          (py ''main.css'')))) \<and>
   fst (extract_linked_styles (site_ascii\<lparr>BeautifulSoup := (\<lambda>html. Inr theme_soup)\<rparr>)
          page_html (py ''https://example.com/page'') (py ''example.com_page'') world0) =
     Inr False \<and>
   files (snd (extract_linked_styles (site_ascii\<lparr>BeautifulSoup := (\<lambda>html. Inr theme_soup)\<rparr>)
          page_html (py ''https://example.com/page'') (py ''example.com_page'') world0))
     (py ''example.com_page/style_3.css'') = Some (py ''p{color:red}'')"
proof -
  let ?B = "py ''https://example.com/page''" and ?D = "py ''example.com_page''"
  let ?U = "py ''https://example.com/theme/''"
  let ?R = "\<lparr>body = py ''p{color:red}'', status_code = 200, reason = py ''OK'',
             response_url = ?U\<rparr>"
  let ?P = "\<lparr>netloc = py ''example.com'', path = py ''/theme/''\<rparr>"
  let ?n = "length ([0, 1] @ 2 # [3]::nat list)"
  let ?w = "world0\<lparr>console := console world0 @
               [[10] @ py ''Found '' @ str_nat ?n @ py '' stylesheet(s) to extract...'']\<rparr>"
  let ?line = "py ''  ['' @ str_nat (Suc (length [0, 1::nat])) @ py ''/'' @ str_nat ?n @
               py ''] Downloading: '' @ ?U"
  let ?w1 = "?w\<lparr>console := console ?w @ [?line], requests := requests ?w @ [?U]\<rparr>"
  let ?E = "\<lambda>m. site\<lparr>BeautifulSoup := (\<lambda>html. Inr theme_soup), stdout_marks := m\<rparr>"
  have l: "find_all_stylesheet_links theme_soup = [0, 1] @ 2 # [3]"
    by (simp add: theme_links)
  have hr: "tag_get theme_soup 2 (py ''href'') = Some (py ''theme/'')"
    by (simp add: tag_get_def theme_soup_def py_def)
  have ne: "py ''theme/'' \<noteq> []" by (simp add: py_def)
  have fn: "py ''style_3.css'' =
      (if basename (path ?P) \<noteq> [] \<and> endswith (basename (path ?P)) (py ''.css'')
       then basename (path ?P)
       else py ''style_'' @ str_nat (Suc (length [0, 1::nat])) @ py ''.css'')"
    by (simp add: basename_def str_nat.simps py_def)
  have t: "(stdout_marks (?E m) = None \<longrightarrow>
            extract_linked_styles (?E m) page_html ?B ?D world0 =
              try_except
                (and_then (for_links (?E m) ?B ?D ?n (Suc (Suc (length [0, 1::nat]))) [3]
                             (tag_set (fst (theme_soup, []::pystr list)) 2 (py ''href'') (py ''style_3.css''),
                              snd (theme_soup, []) @ [py ''style_3.css'']))
                   (styles_finish (?E m) ?D))
                styles_except
                (?w1\<lparr>files := (files ?w1)(os_path_join ?D (py ''style_3.css'') \<mapsto> body ?R),
                    console := console ?w1 @
                      [py ''    '' @ [10003] @ py '' Saved to: '' @ py ''style_3.css'']\<rparr>)) \<and>
         (\<forall>msg. stdout_marks (?E m) = Some msg \<longrightarrow>
            extract_linked_styles (?E m) page_html ?B ?D world0 =
              (Inr False,
               ?w1\<lparr>files := (files ?w1)(os_path_join ?D (py ''style_3.css'') \<mapsto> body ?R),
                   console := console ?w1 @
                     [py ''Error extracting styles: '' @
                      msg (py ''    '' @ [10007] @ py '' Error processing '' @ ?U @ py '': '' @
                           msg (py ''    '' @ [10003] @ py '' Saved to: '' @
                                py ''style_3.css''))]\<rparr>))"
    for m
  proof -
    have p: "BeautifulSoup (?E m) page_html = Inr theme_soup" by simp
    have pre: "for_links (?E m) ?B ?D ?n 1 [0, 1] (theme_soup, []) ?w =
        (Inr (theme_soup, []), ?w)"
      by (simp add: process_link_def tag_get_def theme_soup_def return_def py_def)
    have uj: "urljoin (?E m) ?B (py ''theme/'') = Inr ?U" by (simp add: site_defs)
    have ht: "http (?E m) (?w\<lparr>console := console ?w @ [?line]\<rparr>) ?U = Inr ?R"
      by (simp add: site_defs)
    have stc: "\<not> (400 \<le> status_code ?R \<and> status_code ?R < 600)" by simp
    have up: "urlparse (?E m) ?U = Inr ?P" by (simp add: site_defs)
    have fo: "fopen (?E m) ?w1 (os_path_join ?D (py ''style_3.css'')) = None"
      by (simp add: site_def)
    have fw: "fwrite (?E m)
            (?w1\<lparr>files := (files ?w1)(os_path_join ?D (py ''style_3.css'') \<mapsto> [])\<rparr>)
            (os_path_join ?D (py ''style_3.css'')) (body ?R) = None"
      by (simp add: site_def)
    show ?thesis
      using stylesheet_filename[where e = "?E m" and html = page_html and soup = theme_soup
        and pre = "[0, 1]" and link = 2 and post = "[3]" and base = ?B and dir = ?D
        and ?w0.0 = world0 and st = "(theme_soup, [])" and w = ?w and hr = "py ''theme/''"
        and u = ?U and line = ?line and r = ?R and p = ?P and fn = "py ''style_3.css''"
        and ?w1.0 = ?w1, OF p l pre hr ne uj refl ht stc up fn refl fo fw] .
  qed
  have e1: "?E None = site\<lparr>BeautifulSoup := (\<lambda>html. Inr theme_soup)\<rparr>"
    by (simp add: site_def)
  have e2: "?E (Some (\<lambda>s. py ''ascii codec cannot encode character'')) =
      site_ascii\<lparr>BeautifulSoup := (\<lambda>html. Inr theme_soup)\<rparr>"
    by (simp add: site_ascii_def)
  have m1: "stdout_marks (?E None) = None" by simp
  have m2: "stdout_marks (?E (Some (\<lambda>s. py ''ascii codec cannot encode character''))) =
      Some (\<lambda>s. py ''ascii codec cannot encode character'')"
    by simp
  note a = t[of None, THEN conjunct1, THEN mp, OF m1, unfolded e1]
  note b = t[of "Some (\<lambda>s. py ''ascii codec cannot encode character'')", THEN conjunct2,
      THEN spec, THEN mp, OF m2, unfolded e2]
  have 1: "extract_linked_styles (site\<lparr>BeautifulSoup := (\<lambda>html. Inr theme_soup)\<rparr>) page_html
       ?B ?D world0 =
     (Inr True,
      world0\<lparr>console :=
         [[10] @ py ''Found 4 stylesheet(s) to extract...'',
          py ''  [3/4] Downloading: https://example.com/theme/'',
          py ''    '' @ [10003] @ py '' Saved to: style_3.css'',
          py ''  [4/4] Downloading: https://example.com/css/main.css'',
          py ''    '' @ [10003] @ py '' Saved to: main.css'',
          [10, 10003] @ py '' Successfully extracted 2 stylesheet(s)''],
        requests := [py ''https://example.com/theme/'', py ''https://example.com/css/main.css''],
        files := [py ''example.com_page/style_3.css'' \<mapsto> py ''p{color:red}'',
                  py ''example.com_page/main.css'' \<mapsto> py ''body{margin:0}'',
                  py ''example.com_page/index.html'' \<mapsto>
                    concat (map show_node
                      (tag_set (tag_set theme_soup 2 (py ''href'') (py ''style_3.css'')) 3
                         (py ''href'') (py ''main.css'')))]\<rparr>)"
    unfolding a
    by (simp add: process_link_def link_try_def try_except_def css_filename_of_def basename_def
        tag_get_def tag_set_def str_nat.simps theme_soup_def styles_finish_def run_defs site_defs)
  have 2: "extract_linked_styles (site_ascii\<lparr>BeautifulSoup := (\<lambda>html. Inr theme_soup)\<rparr>)
       page_html ?B ?D world0 =
     (Inr False,
      world0\<lparr>console :=
         [[10] @ py ''Found 4 stylesheet(s) to extract...'',
          py ''  [3/4] Downloading: https://example.com/theme/'',
          py ''Error extracting styles: ascii codec cannot encode character''],
        requests := [py ''https://example.com/theme/''],
        files := [py ''example.com_page/style_3.css'' \<mapsto> py ''p{color:red}'']\<rparr>)"
    unfolding b
    by (simp add: str_nat.simps os_path_join_def startswith_def endswith_def suffix_to_prefix
        world0_def py_def)
  show ?thesis unfolding 1 2 by (simp add: py_def)
qed




section \<open>From the Fetcher to the Mirror\<close>

text \<open>
  Claim C1 as it was stated does not hold. \<open>requests.get\<close> follows redirects. The site
  has moved the page: the request for \<open>https://example.com/page\<close> is answered from
  \<open>https://www.example.com/en/page\<close>, which is the URL the HTML was fetched from. The
  Fetcher returns the URL it requested as the base URL, not that one.
\<close>

theorem base_url_not_final_url:
  "fst (extract_html_from_url site_moved (py ''example.com/page'') world0) =
     Inr (Some (py ''example.com_page/index.html''), Some page_html,
          Some (py ''https://example.com/page''), Some (py ''example.com_page'')) \<and>
   (\<forall>w. http site_moved w (py ''https://example.com/page'') =
      Inr \<lparr>body = page_html, status_code = 200, reason = py ''OK'',
           response_url = py ''https://www.example.com/en/page''\<rparr>) \<and>
   py ''https://example.com/page'' \<noteq> py ''https://www.example.com/en/page''"
  by (simp add: site_moved_fetch) (simp add: site_moved_def py_def)

text \<open>
  Claim C1, as amended. The base URL that the Fetcher returns is the URL with its
  scheme: the one its GET request was sent to, and the HTML it returns is the body of
  the response to that request. The driver, when the Fetcher has returned its four
  values and the answer at the second prompt is \<open>y\<close> or \<open>yes\<close>, calls the Mirror with the
  HTML, the base URL and the directory that the Fetcher returned. And the Mirror, in a
  run that returns \<open>True\<close>, has sent one request for each stylesheet link of the document
  that has a reference, in the order of the links: to \<open>urljoin\<close> of the base URL it was
  given and the reference.
\<close>

theorem base_url_is_request_url:
  "(fst (extract_html_from_url e url w) = Inr (p, h, Some b, d) \<longrightarrow>
      b = add_scheme url \<and>
      requests (snd (extract_html_from_url e url w)) = requests w @ [b] \<and>
      (\<exists>r. http e (snd (print (py ''Fetching HTML from: '' @ b) w)) b = Inr r \<and>
           h = Some (body r))) \<and>
   (stdin w = line # answer # rest \<and> strip line \<noteq> [] \<and> stdout_marks e = None \<and>
    extract_html_from_url e (strip line)
      (w\<lparr>console := console w @
           [py ''HTML Extractor Tool'', replicate 50 61,
            py ''Enter the URL to extract HTML from: ''],
         stdin := answer # rest\<rparr>) = (Inr (Some p', Some h', Some b', Some d'), w2) \<and>
    p' \<noteq> [] \<and> (lower (strip answer) = py ''y'' \<or> lower (strip answer) = py ''yes'') \<longrightarrow>
      b' = add_scheme (strip line) \<and>
      main e w =
        and_then (extract_linked_styles e h' b' d') (\<lambda>_. return ())
          (w2\<lparr>console := console w2 @
                [[10, 10003] @ py '' Success! HTML file saved at: '' @ p',
                 [10] @ py ''Do you want to extract linked styles? (y/n): '',
                 [10] @ py ''Extracting linked stylesheets...''],
              stdin := rest\<rparr>)) \<and>
   (BeautifulSoup e html = Inr soup \<and>
    fst (extract_linked_styles e html base dir w') = Inr True \<longrightarrow>
      requests (snd (extract_linked_styles e html base dir w')) =
        requests w' @
        concat (map (\<lambda>link. case tag_get soup link (py ''href'') of
                       None \<Rightarrow> []
                     | Some hr \<Rightarrow> if hr = [] then []
                                  else (case urljoin e base hr of Inl x \<Rightarrow> [] | Inr u \<Rightarrow> [u]))
                  (find_all_stylesheet_links soup)))"
proof (intro conjI impI)
  assume a: "fst (extract_html_from_url e url w) = Inr (p, h, Some b, d)"
  from fetch_Some[OF a] obtain p1 h1 d1 where
    s: "p = Some p1" "h = Some h1" "d = Some d1"
    and f: "fetch_try e url w = (Inr (p1, h1, b, d1), snd (extract_html_from_url e url w))"
    by blast
  from fetch_try_Inr[OF f] have b: "b = add_scheme url"
    and r: "\<exists>r. http e (snd (print (py ''Fetching HTML from: '' @ add_scheme url) w))
                   (add_scheme url) = Inr r \<and> http_error r = None \<and> h1 = body r"
    by blast+
  show "b = add_scheme url" by (rule b)
  show "requests (snd (extract_html_from_url e url w)) = requests w @ [b]"
    using b fetch_requests[of e url w] by simp
  show "\<exists>r. http e (snd (print (py ''Fetching HTML from: '' @ b) w)) b = Inr r \<and>
           h = Some (body r)"
    using b r s by auto
next
  let ?w1 = "w\<lparr>console := console w @
           [py ''HTML Extractor Tool'', replicate 50 61,
            py ''Enter the URL to extract HTML from: ''],
         stdin := answer # rest\<rparr>"
  assume a: "stdin w = line # answer # rest \<and> strip line \<noteq> [] \<and> stdout_marks e = None \<and>
    extract_html_from_url e (strip line) ?w1 = (Inr (Some p', Some h', Some b', Some d'), w2) \<and>
    p' \<noteq> [] \<and> (lower (strip answer) = py ''y'' \<or> lower (strip answer) = py ''yes'')"
  then have f: "extract_html_from_url e (strip line) ?w1 =
      (Inr (Some p', Some h', Some b', Some d'), w2)"
    by blast
  have "fst (extract_html_from_url e (strip line) ?w1) = Inr (Some p', Some h', Some b', Some d')"
    using f by simp
  from fetch_Some[OF this] obtain p1 h1 d1 where
    "fetch_try e (strip line) ?w1 =
       (Inr (p1, h1, b', d1), snd (extract_html_from_url e (strip line) ?w1))"
    by blast
  from fetch_try_Inr[OF this] show "b' = add_scheme (strip line)" by blast
  have s2: "stdin w2 = answer # rest"
    using fetch_stdin[of e "strip line" ?w1] f by simp
  have step: "and_then (extract_html_from_url e (strip line)) g ?w1 =
      g (Some p', Some h', Some b', Some d') w2" for g
    using f by (simp add: and_then_def)
  have y: "lower (strip answer) \<in> set [py ''y'', py ''yes'']" using a by auto
  show "main e w =
        and_then (extract_linked_styles e h' b' d') (\<lambda>_. return ())
          (w2\<lparr>console := console w2 @
                [[10, 10003] @ py '' Success! HTML file saved at: '' @ p',
                 [10] @ py ''Do you want to extract linked styles? (y/n): '',
                 [10] @ py ''Extracting linked stylesheets...''],
              stdin := rest\<rparr>)"
    unfolding main_def using a y
    by (simp add: and_then_input Let_def step and_then_print_mark s2 del: set_simps)
      (cases w2, simp)
next
  assume "BeautifulSoup e html = Inr soup \<and>
    fst (extract_linked_styles e html base dir w') = Inr True"
  then show "requests (snd (extract_linked_styles e html base dir w')) =
        requests w' @
        concat (map (\<lambda>link. case tag_get soup link (py ''href'') of
                       None \<Rightarrow> []
                     | Some hr \<Rightarrow> if hr = [] then []
                                  else (case urljoin e base hr of Inl x \<Rightarrow> [] | Inr u \<Rightarrow> [u]))
                  (find_all_stylesheet_links soup))"
    using mirror_True_requests[of e html soup base dir w'] by blast
qed

theorem base_url_is_request_url_witness:
  "fst (extract_html_from_url site (py ''example.com/page'') world0) =
     Inr (Some (py ''example.com_page/index.html''), Some page_html,
          Some (py ''https://example.com/page''), Some (py ''example.com_page'')) \<and>
   py ''https://example.com/page'' = add_scheme (py ''example.com/page'') \<and>
   requests (snd (extract_html_from_url site (py ''example.com/page'') world0)) =
     [py ''https://example.com/page''] \<and>
   main site (world0\<lparr>stdin := [py '' example.com/page'', py ''Yes'']\<rparr>) =
     and_then (extract_linked_styles site page_html (py ''https://example.com/page'')
                 (py ''example.com_page'')) (\<lambda>_. return ())
       (world0\<lparr>dirs := {py ''example.com_page''},
          files := [py ''example.com_page/index.html'' \<mapsto> page_html],
          requests := [py ''https://example.com/page''],
          console :=
            [py ''HTML Extractor Tool'', replicate 50 61,
             py ''Enter the URL to extract HTML from: '',
             py ''Fetching HTML from: https://example.com/page'',
             py ''Created directory: example.com_page'',
             py ''HTML successfully saved to: example.com_page/index.html'',
             [10, 10003] @ py '' Success! HTML file saved at: example.com_page/index.html'',
             [10] @ py ''Do you want to extract linked styles? (y/n): '',
             [10] @ py ''Extracting linked stylesheets...'']\<rparr>) \<and>
   requests (snd (extract_linked_styles site page_html (py ''https://example.com/page'')
                    (py ''example.com_page'') world0)) =
     [py ''https://example.com/broken.css'', py ''https://example.com/css/main.css'',
      py ''https://example.com/theme/'']"
proof -
  let ?B = "py ''https://example.com/page''" and ?D = "py ''example.com_page''"
  let ?P = "py ''example.com_page/index.html''"
  let ?w = "world0\<lparr>stdin := [py '' example.com/page'', py ''Yes'']\<rparr>"
  let ?w1 = "?w\<lparr>console := console ?w @
           [py ''HTML Extractor Tool'', replicate 50 61,
            py ''Enter the URL to extract HTML from: ''],
         stdin := py ''Yes'' # []\<rparr>"
  let ?w2 = "world0\<lparr>dirs := {?D}, files := [?P \<mapsto> page_html], requests := [?B],
          console :=
            [py ''HTML Extractor Tool'', replicate 50 61,
             py ''Enter the URL to extract HTML from: '',
             py ''Fetching HTML from: https://example.com/page'',
             py ''Created directory: example.com_page'',
             py ''HTML successfully saved to: example.com_page/index.html''],
          stdin := [py ''Yes'']\<rparr>"
  have f: "fst (extract_html_from_url site (py ''example.com/page'') world0) =
     Inr (Some ?P, Some page_html, Some ?B, Some ?D)"
    by (simp add: site_fetch)
  note t1 = base_url_is_request_url[where e = site and url = "py ''example.com/page''"
      and w = world0 and p = "Some ?P" and h = "Some page_html" and b = ?B and d = "Some ?D",
      THEN conjunct1, THEN mp, OF f]
  have r: "requests world0 = []" by (simp add: world0_def)
  have 1: "?B = add_scheme (py ''example.com/page'')"
    using t1 by blast
  have 2: "requests (snd (extract_html_from_url site (py ''example.com/page'') world0)) = [?B]"
    using t1 r by simp
  have st: "strip (py '' example.com/page'') = py ''example.com/page''"
    by (simp add: strip_def isspace_def py_def)
  have g: "extract_html_from_url site (py ''example.com/page'') ?w1 =
      (Inr (Some ?P, Some page_html, Some ?B, Some ?D), ?w2)"
    by (simp add: extract_html_from_url_def try_except_def run_defs site_defs)
  have a: "stdin ?w = py '' example.com/page'' # py ''Yes'' # [] \<and>
    strip (py '' example.com/page'') \<noteq> [] \<and> stdout_marks site = None \<and>
    extract_html_from_url site (strip (py '' example.com/page'')) ?w1 =
      (Inr (Some ?P, Some page_html, Some ?B, Some ?D), ?w2) \<and>
    ?P \<noteq> [] \<and> (lower (strip (py ''Yes'')) = py ''y'' \<or> lower (strip (py ''Yes'')) = py ''yes'')"
    unfolding st using g
    by (simp add: site_def) (simp add: lower_def strip_def isspace_def py_def)
  note t2 = base_url_is_request_url[where e = site and w = ?w
      and line = "py '' example.com/page''" and answer = "py ''Yes''" and rest = "[]"
      and p' = ?P and h' = page_html and b' = ?B and d' = ?D and ?w2.0 = ?w2,
      THEN conjunct2, THEN conjunct1, THEN mp, OF a, THEN conjunct2]
  have 3: "main site ?w =
     and_then (extract_linked_styles site page_html ?B ?D) (\<lambda>_. return ())
       (world0\<lparr>dirs := {?D}, files := [?P \<mapsto> page_html], requests := [?B],
          console :=
            [py ''HTML Extractor Tool'', replicate 50 61,
             py ''Enter the URL to extract HTML from: '',
             py ''Fetching HTML from: https://example.com/page'',
             py ''Created directory: example.com_page'',
             py ''HTML successfully saved to: example.com_page/index.html'',
             [10, 10003] @ py '' Success! HTML file saved at: example.com_page/index.html'',
             [10] @ py ''Do you want to extract linked styles? (y/n): '',
             [10] @ py ''Extracting linked stylesheets...'']\<rparr>)"
    unfolding t2 by (simp add: world0_def py_def)
  have c: "BeautifulSoup site page_html = Inr page_soup \<and>
    fst (extract_linked_styles site page_html ?B ?D world0) = Inr True"
    using site_mirror_True by (simp add: site_def)
  note t3 = base_url_is_request_url[where e = site and html = page_html and soup = page_soup
      and base = ?B and dir = ?D and w' = world0,
      THEN conjunct2, THEN conjunct2, THEN mp, OF c]
  have 4: "requests (snd (extract_linked_styles site page_html ?B ?D world0)) =
     [py ''https://example.com/broken.css'', py ''https://example.com/css/main.css'',
      py ''https://example.com/theme/'']"
    unfolding t3 site_links
    by (simp add: tag_get_def page_soup_def site_defs)
  show ?thesis using f 1 2 3 4 by blast
qed

section \<open>The driver\<close>

text \<open>
  Claim C8. When the line read at the first prompt is empty once its whitespace is
  stripped, \<open>main\<close> prints the banner, the prompt and \<open>Error: URL cannot be empty.\<close> and
  returns. The result does not depend on the environment: the Fetcher is not called,
  no request is sent, no directory or file is touched.
\<close>

theorem main_empty_url:
  assumes "stdin w = line # rest" and "strip line = []"
  shows "main e w =
           (Inr (), w\<lparr>console := console w @
                        [py ''HTML Extractor Tool'', replicate 50 61,
                         py ''Enter the URL to extract HTML from: '',
                         py ''Error: URL cannot be empty.''],
                      stdin := rest\<rparr>) \<and>
         requests (snd (main e w)) = requests w \<and>
         files (snd (main e w)) = files w \<and> dirs (snd (main e w)) = dirs w"
  using assms by (simp add: main_def and_then_input Let_def print_def)

theorem main_empty_url_witness:
  "main site (world0\<lparr>stdin := [py ''  '']\<rparr>) =
     (Inr (), world0\<lparr>console := [py ''HTML Extractor Tool'', replicate 50 61,
                         py ''Enter the URL to extract HTML from: '',
                         py ''Error: URL cannot be empty.''],
                      stdin := []\<rparr>) \<and>
   requests (snd (main site (world0\<lparr>stdin := [py ''  '']\<rparr>))) = []"
proof -
  have a: "stdin (world0\<lparr>stdin := [py ''  '']\<rparr>) = py ''  '' # []" by simp
  have b: "strip (py ''  '') = []" by (simp add: strip_def isspace_def py_def)
  have c: "console world0 = []" "requests world0 = []" by (simp_all add: world0_def)
  from main_empty_url[OF a b, of site] c show ?thesis by simp
qed

end
